theory Spec2Isabelle
  imports Main "HOL-Library.Word"
begin

section \<open>The integer set library as seen from scop.c\<close>

text \<open>
  scop.c manipulates values of the integer set library (isl): identifiers, sets,
  relations and piecewise affine expressions.  They are modelled by what they denote.

  \<^item> An identifier is a name together with a user pointer; two identifiers are the same
    pointer exactly when both agree.  A null user pointer is \<open>None\<close>.
  \<^item> A parameter valuation is a pair: the values of the named parameters and the values
    of the unnamed parameters that stand for nested accesses.  A parameter set
    (a context, a condition) is a HOL set of valuations; \<open>isl_set_intersect\<close>,
    \<open>isl_set_union\<close>, \<open>isl_set_complement\<close> on parameter sets are \<open>\<inter>\<close>, \<open>\<union>\<close>
    and \<open>-\<close>.
  \<^item> A set carries its tuple identifier and dimension and is either a set of points
    (valuation, tuple) or a wrapped relation.  A relation carries the identifiers and
    dimensions of both tuples and a set of points (valuation, in, out).  The universe of
    a space holds the tuples of its dimension.
  \<^item> A piecewise affine expression is a partial function on points.
  \<^item> Operations that only change the constraint representation (coalescing) are the
    identity.  Tests that the library decides on the representation ("plain" tests)
    cannot be computed from the denoted points: their answers are the fields of a record
    \<open>isl_plain\<close> that every function calling them takes as argument.
  \<^item> Binary operations are applied by scop.c to operands that live in the same space;
    the result takes the space of the first operand.  Allocation never fails.
  \<^item> The C type \<open>int\<close> is a word of 32 bits and \<open>long\<close> a word of 64 bits; \<open>sint\<close> reads
    a word as the signed number it stands for.
\<close>

datatype isl_id = Isl_id (id_name: string) (id_user: "nat option")

type_synonym tuple = "int list"

type_synonym ('p, 'q) isl_point_set = "(('p \<times> 'q) \<times> tuple) set"

record ('p, 'q) isl_map =
  map_in_id :: "isl_id option"
  map_n_in :: nat
  map_out_id :: "isl_id option"
  map_n_out :: nat
  map_pts :: "(('p \<times> 'q) \<times> tuple \<times> tuple) set"

datatype ('p, 'q) isl_set =
    Isl_set (set_tuple_id: "isl_id option") (set_n_dim: nat) (set_pts: "('p, 'q) isl_point_set")
  | Isl_wrap (set_tuple_id: "isl_id option") (set_wrapped: "('p, 'q) isl_map")

record ('p, 'q) isl_pw_aff =
  pa_in_id :: "isl_id option"
  pa_n_in :: nat
  pa_fn :: "('p \<times> 'q) \<times> tuple \<Rightarrow> int option"

record ('p, 'q) isl_multi_pw_aff =
  mpa_in_id :: "isl_id option"
  mpa_n_in :: nat
  mpa_out_id :: "isl_id option"
  mpa_affs :: "(('p \<times> 'q) \<times> tuple \<Rightarrow> int option) list"

datatype isl_error = isl_error_none | isl_error_internal string | isl_error_invalid string

text \<open>
  A null result of a call is \<open>Inl\<close> of the error that the library recorded;
  \<open>isl_error_none\<close> when the result is null because an argument was, which records
  nothing.
\<close>

definition ebind :: "isl_error + 'a \<Rightarrow> ('a \<Rightarrow> isl_error + 'b) \<Rightarrow> isl_error + 'b" where
  "ebind r f = (case r of Inl e \<Rightarrow> Inl e | Inr x \<Rightarrow> f x)"

fun mapM_err :: "('a \<Rightarrow> isl_error + 'b) \<Rightarrow> 'a list \<Rightarrow> isl_error + 'b list" where
  "mapM_err f [] = Inr []"
| "mapM_err f (x # xs) =
     (case f x of Inl e \<Rightarrow> Inl e
      | Inr y \<Rightarrow> (case mapM_err f xs of Inl e \<Rightarrow> Inl e | Inr ys \<Rightarrow> Inr (y # ys)))"

subsection \<open>Sets\<close>

fun isl_set_points :: "('p, 'q) isl_set \<Rightarrow> ('p, 'q) isl_point_set" where
  "isl_set_points (Isl_set i n P) = P"
| "isl_set_points (Isl_wrap i m) = {(v, x @ y) | v x y. (v, x, y) \<in> map_pts m}"

fun isl_set_dim :: "('p, 'q) isl_set \<Rightarrow> nat" where
  "isl_set_dim (Isl_set i n P) = n"
| "isl_set_dim (Isl_wrap i m) = map_n_in m + map_n_out m"

definition isl_set_has_tuple_id :: "('p, 'q) isl_set \<Rightarrow> bool" where
  "isl_set_has_tuple_id s = (set_tuple_id s \<noteq> None)"

fun isl_set_is_wrapping :: "('p, 'q) isl_set \<Rightarrow> bool" where
  "isl_set_is_wrapping (Isl_set i n P) = False"
| "isl_set_is_wrapping (Isl_wrap i m) = True"

fun isl_set_set_tuple_id :: "('p, 'q) isl_set \<Rightarrow> isl_id \<Rightarrow> ('p, 'q) isl_set" where
  "isl_set_set_tuple_id (Isl_set i n P) a = Isl_set (Some a) n P"
| "isl_set_set_tuple_id (Isl_wrap i m) a = Isl_wrap (Some a) m"

fun isl_set_unwrap :: "('p, 'q) isl_set \<Rightarrow> isl_error + ('p, 'q) isl_map" where
  "isl_set_unwrap (Isl_set i n P) = Inl (isl_error_invalid ''not a wrapping set'')"
| "isl_set_unwrap (Isl_wrap i m) = Inr m"

text \<open>Keep the points of a set whose valuation and flattened tuple satisfy a predicate.\<close>

fun isl_set_keep :: "(('p \<times> 'q) \<times> tuple \<Rightarrow> bool) \<Rightarrow> ('p, 'q) isl_set \<Rightarrow> ('p, 'q) isl_set" where
  "isl_set_keep f (Isl_set i n P) = Isl_set i n {pt \<in> P. f pt}"
| "isl_set_keep f (Isl_wrap i m) =
     Isl_wrap i (m\<lparr>map_pts := {(v, x, y). (v, x, y) \<in> map_pts m \<and> f (v, x @ y)}\<rparr>)"

definition isl_set_intersect_params :: "('p, 'q) isl_set \<Rightarrow> ('p \<times> 'q) set \<Rightarrow> ('p, 'q) isl_set" where
  "isl_set_intersect_params s c = isl_set_keep (\<lambda>(v, x). v \<in> c) s"

definition isl_set_intersect :: "('p, 'q) isl_set \<Rightarrow> ('p, 'q) isl_set \<Rightarrow> ('p, 'q) isl_set" where
  "isl_set_intersect s t = isl_set_keep (\<lambda>pt. pt \<in> isl_set_points t) s"

fun isl_set_union :: "('p, 'q) isl_set \<Rightarrow> ('p, 'q) isl_set \<Rightarrow> ('p, 'q) isl_set" where
  "isl_set_union (Isl_set i n P) t = Isl_set i n (P \<union> isl_set_points t)"
| "isl_set_union (Isl_wrap i m) t =
     Isl_wrap i (m\<lparr>map_pts := map_pts m \<union>
        {(v, x, y). length x = map_n_in m \<and> (v, x @ y) \<in> isl_set_points t}\<rparr>)"

definition isl_set_coalesce :: "'a \<Rightarrow> 'a" where
  "isl_set_coalesce s = s"


definition isl_set_from_params :: "('p \<times> 'q) set \<Rightarrow> ('p, 'q) isl_set" where
  "isl_set_from_params c = Isl_set None 0 {(v, x). v \<in> c \<and> x = []}"

subsection \<open>Piecewise affine expressions\<close>

definition isl_pw_aff_domain :: "('p, 'q) isl_pw_aff \<Rightarrow> ('p, 'q) isl_set" where
  "isl_pw_aff_domain pa = Isl_set (pa_in_id pa) (pa_n_in pa) {pt. pa_fn pa pt \<noteq> None}"

definition isl_pw_aff_non_zero_set :: "('p, 'q) isl_pw_aff \<Rightarrow> ('p, 'q) isl_set" where
  "isl_pw_aff_non_zero_set pa =
     Isl_set (pa_in_id pa) (pa_n_in pa) {pt. pa_fn pa pt \<noteq> None \<and> pa_fn pa pt \<noteq> Some 0}"


definition isl_set_indicator_function :: "('p, 'q) isl_set \<Rightarrow> ('p, 'q) isl_pw_aff" where
  "isl_set_indicator_function s =
     \<lparr>pa_in_id = set_tuple_id s, pa_n_in = isl_set_dim s,
      pa_fn = (\<lambda>(v, x). if length x = isl_set_dim s
                         then Some (if (v, x) \<in> isl_set_points s then 1 else 0) else None)\<rparr>"

definition isl_pw_aff_intersect_domain ::
  "('p, 'q) isl_pw_aff \<Rightarrow> ('p, 'q) isl_set \<Rightarrow> ('p, 'q) isl_pw_aff" where
  "isl_pw_aff_intersect_domain pa d =
     pa\<lparr>pa_fn := (\<lambda>pt. if pt \<in> isl_set_points d then pa_fn pa pt else None)\<rparr>"

definition isl_multi_pw_aff_get_pw_aff ::
  "('p, 'q) isl_multi_pw_aff \<Rightarrow> nat \<Rightarrow> isl_error + ('p, 'q) isl_pw_aff" where
  "isl_multi_pw_aff_get_pw_aff mpa pos =
     (if pos < length (mpa_affs mpa)
      then Inr \<lparr>pa_in_id = mpa_in_id mpa, pa_n_in = mpa_n_in mpa, pa_fn = mpa_affs mpa ! pos\<rparr>
      else Inl (isl_error_invalid ''index out of bounds''))"

definition isl_multi_pw_aff_from_pw_aff :: "('p, 'q) isl_pw_aff \<Rightarrow> ('p, 'q) isl_multi_pw_aff" where
  "isl_multi_pw_aff_from_pw_aff pa =
     \<lparr>mpa_in_id = pa_in_id pa, mpa_n_in = pa_n_in pa, mpa_out_id = None, mpa_affs = [pa_fn pa]\<rparr>"

definition isl_map_from_multi_pw_aff :: "('p, 'q) isl_multi_pw_aff \<Rightarrow> ('p, 'q) isl_map" where
  "isl_map_from_multi_pw_aff mpa =
     \<lparr>map_in_id = mpa_in_id mpa, map_n_in = mpa_n_in mpa,
      map_out_id = mpa_out_id mpa, map_n_out = length (mpa_affs mpa),
      map_pts = {(v, x, y). map (\<lambda>f. f (v, x)) (mpa_affs mpa) = map Some y}\<rparr>"

subsection \<open>Relations\<close>

definition isl_map_is_equal :: "('p, 'q) isl_map \<Rightarrow> ('p, 'q) isl_map \<Rightarrow> bool" where
  "isl_map_is_equal m1 m2 =
     (map_in_id m1 = map_in_id m2 \<and> map_n_in m1 = map_n_in m2 \<and>
      map_out_id m1 = map_out_id m2 \<and> map_n_out m1 = map_n_out m2 \<and>
      map_pts m1 = map_pts m2)"

definition isl_map_is_subset :: "('p, 'q) isl_map \<Rightarrow> ('p, 'q) isl_map \<Rightarrow> bool" where
  "isl_map_is_subset m1 m2 =
     (map_in_id m1 = map_in_id m2 \<and> map_n_in m1 = map_n_in m2 \<and>
      map_out_id m1 = map_out_id m2 \<and> map_n_out m1 = map_n_out m2 \<and>
      map_pts m1 \<subseteq> map_pts m2)"

text \<open>
  The composition of two relations fails unless the range of the first lives in the space
  of the domain of the second.
\<close>

definition isl_map_apply_range ::
  "('p, 'q) isl_map \<Rightarrow> ('p, 'q) isl_map \<Rightarrow> isl_error + ('p, 'q) isl_map" where
  "isl_map_apply_range m1 m2 =
     (if map_out_id m1 = map_in_id m2 \<and> map_n_out m1 = map_n_in m2
      then Inr \<lparr>map_in_id = map_in_id m1, map_n_in = map_n_in m1,
                map_out_id = map_out_id m2, map_n_out = map_n_out m2,
                map_pts = {(v, x, z). \<exists>y. (v, x, y) \<in> map_pts m1 \<and> (v, y, z) \<in> map_pts m2}\<rparr>
      else Inl (isl_error_invalid ''incompatible spaces''))"

subsection \<open>Values and tests on the representation\<close>

text \<open>
  A value of the library is an integer or not-a-number.  \<open>isl_val_get_num_si\<close> returns a
  \<open>long\<close>: the integer when it fits, and 0 after reporting "numerator too large" or
  "expecting rational value".
\<close>

datatype isl_val = Isl_val_int int | Isl_val_nan

definition isl_val_is_int :: "isl_val \<Rightarrow> bool" where
  "isl_val_is_int val = (case val of Isl_val_int n \<Rightarrow> True | Isl_val_nan \<Rightarrow> False)"

definition isl_val_get_num_si :: "isl_val \<Rightarrow> 64 word" where
  "isl_val_get_num_si val =
     (case val of
        Isl_val_int n \<Rightarrow> if - (2 ^ 63) \<le> n \<and> n < 2 ^ 63 then word_of_int n else 0
      | Isl_val_nan \<Rightarrow> 0)"

text \<open>
  \<open>isl_map_plain_get_val_if_fixed\<close> and \<open>isl_set_plain_is_universe\<close> inspect the
  constraints that represent a relation or a set: the first reports the value of an output
  dimension when an equality of the representation fixes it and not-a-number otherwise,
  the second answers yes when the representation has a piece without constraints.  Two
  representations of the same points can get different answers.  The answers are the
  fields of \<open>isl_plain\<close>; what the library promises of them is \<open>isl_plain_contract\<close>:
  a reported value is the value of that dimension at every point, and a set reported as
  universe holds every tuple of its dimension.  A position outside the output tuple is an
  error of the library.
\<close>

record ('p, 'q) isl_plain =
  plain_fixed :: "('p, 'q) isl_map \<Rightarrow> nat \<Rightarrow> isl_val"
  plain_universe :: "('p, 'q) isl_set \<Rightarrow> bool"

definition isl_plain_contract :: "('p, 'q) isl_plain \<Rightarrow> bool" where
  "isl_plain_contract lib =
     ((\<forall>m pos n. plain_fixed lib m pos = Isl_val_int n \<longrightarrow>
          (\<forall>(v, x, y) \<in> map_pts m. y ! pos = n)) \<and>
      (\<forall>s. plain_universe lib s \<longrightarrow> isl_set_points s = {(v, x). length x = isl_set_dim s}))"

definition isl_map_plain_get_val_if_fixed ::
  "('p, 'q) isl_plain \<Rightarrow> ('p, 'q) isl_map \<Rightarrow> nat \<Rightarrow> isl_error + isl_val" where
  "isl_map_plain_get_val_if_fixed lib m pos =
     (if pos < map_n_out m then Inr (plain_fixed lib m pos)
      else Inl (isl_error_invalid ''position out of bounds''))"

definition isl_set_plain_is_universe :: "('p, 'q) isl_plain \<Rightarrow> ('p, 'q) isl_set \<Rightarrow> bool" where
  "isl_set_plain_is_universe lib s = plain_universe lib s"


section \<open>The entity model\<close>

text \<open>
  Modelled from the spec: the source locations of loc.c.  A location is either the shared
  dummy location \<open>pet_loc_dummy\<close>, which scop.c recognises by its address, or a "byte-range
  source span" with a line number; \<open>pet_loc_update_start_end\<close> must "aggregate source
  spans by extending the min/max offsets".
\<close>

datatype pet_loc = pet_loc_dummy | Pet_loc (loc_start: nat) (loc_end: nat) (loc_line: int)

definition pet_loc_alloc :: "nat \<Rightarrow> nat \<Rightarrow> int \<Rightarrow> pet_loc" where
  "pet_loc_alloc start end' line = Pet_loc start end' line"

fun pet_loc_get_start :: "pet_loc \<Rightarrow> nat" where
  "pet_loc_get_start pet_loc_dummy = 0"
| "pet_loc_get_start (Pet_loc s e l) = s"

fun pet_loc_get_end :: "pet_loc \<Rightarrow> nat" where
  "pet_loc_get_end pet_loc_dummy = 0"
| "pet_loc_get_end (Pet_loc s e l) = e"

fun pet_loc_update_start_end :: "pet_loc \<Rightarrow> nat \<Rightarrow> nat \<Rightarrow> pet_loc" where
  "pet_loc_update_start_end pet_loc_dummy start end' = pet_loc_dummy"
| "pet_loc_update_start_end (Pet_loc s e l) start end' = Pet_loc (min s start) (max e end') l"

text \<open>
  Modelled from the spec: the expression tree of expr.h, an "AccessExpression (read/write
  flags, access relation, index expression, argument list)" or an "OperatorExpression
  (kind, operands)".
\<close>

datatype ('p, 'q) pet_expr =
    Pet_expr_access (acc_access: "('p, 'q) isl_map") (acc_index: "('p, 'q) isl_multi_pw_aff")
      (acc_read: bool) (acc_write: bool) (expr_args: "('p, 'q) pet_expr list")
  | Pet_expr_op (expr_op: nat) (expr_args: "('p, 'q) pet_expr list")

text \<open>
  Modelled from the spec: the structures of scop.h, with the fields that section 3 of the
  spec lists and scop.c reads and writes.  A C array with its counter is a list.  The
  iteration domain of a statement is a pointer that \<open>stmt_filter\<close> can leave null:
  \<open>None\<close>.
\<close>

record pet_type =
  type_name :: string
  type_definition :: string

record ('p, 'q) pet_array =
  array_context :: "('p \<times> 'q) set"
  array_extent :: "('p, 'q) isl_set"
  array_value_bounds :: "('p, 'q) isl_set option"
  array_element_type :: string
  array_element_is_record :: bool
  array_element_size :: int
  array_live_out :: bool
  array_uniquely_defined :: bool
  array_declared :: bool
  array_exposed :: bool

record ('p, 'q) pet_stmt =
  stmt_loc :: pet_loc
  stmt_domain :: "('p, 'q) isl_set option"
  stmt_schedule :: "('p, 'q) isl_map"
  stmt_body :: "('p, 'q) pet_expr"
  stmt_args :: "('p, 'q) pet_expr list"

record ('p, 'q) pet_implication =
  impl_extension :: "('p, 'q) isl_map"
  impl_satisfied :: "32 word"

datatype pet_skip = pet_skip_now | pet_skip_later

text \<open>
  \<open>struct pet_scop_ext\<close>: a \<open>pet_scop\<close> followed by the two skip conditions and the
  input file.  A missing skip condition (a null pointer) is \<open>None\<close>.
\<close>

record ('p, 'q) pet_scop =
  scop_loc :: pet_loc
  scop_context :: "('p \<times> 'q) set"
  scop_context_value :: "('p \<times> 'q) set"
  scop_types :: "pet_type list"
  scop_arrays :: "('p, 'q) pet_array list"
  scop_stmts :: "('p, 'q) pet_stmt list"
  scop_implications :: "('p, 'q) pet_implication list"
  scop_skip :: "pet_skip \<Rightarrow> ('p, 'q) isl_multi_pw_aff option"
  scop_input :: "nat option"

text \<open>
  Modelled from the spec: \<open>pet_nested_remove_from_set\<close> of nest.c, "discarding any
  residual unnamed/auxiliary parameters"; scop.c describes it as removing the unnamed
  parameters from a parameter set, which are "projected out".
\<close>

definition pet_nested_remove_from_set :: "('p \<times> 'q) set \<Rightarrow> ('p \<times> 'q) set" where
  "pet_nested_remove_from_set c = fst ` c \<times> UNIV"

section \<open>Construction and composition\<close>

text \<open>
  \<open>scop_alloc\<close>: a zeroed structure with universal context and the dummy location.
  The statement slots are filled by the caller; the model starts from the empty list.
\<close>

definition scop_alloc :: "('p, 'q) pet_scop" where
  "scop_alloc =
     \<lparr>scop_loc = pet_loc_dummy, scop_context = UNIV, scop_context_value = UNIV,
      scop_types = [], scop_arrays = [], scop_stmts = [], scop_implications = [],
      scop_skip = (\<lambda>t. None), scop_input = None\<rparr>"

definition pet_scop_empty :: "('p, 'q) pet_scop" where
  "pet_scop_empty = scop_alloc"

definition multi_pw_aff_is_affine :: "('p, 'q) isl_multi_pw_aff \<Rightarrow> bool" where
  "multi_pw_aff_is_affine mpa = (mpa_out_id mpa = None)"

definition indicator_function :: "('p, 'q) isl_set \<Rightarrow> ('p, 'q) isl_set \<Rightarrow> ('p, 'q) isl_pw_aff" where
  "indicator_function s d = isl_pw_aff_intersect_domain (isl_set_indicator_function s) d"

definition pw_aff_or :: "('p, 'q) isl_pw_aff \<Rightarrow> ('p, 'q) isl_pw_aff \<Rightarrow> ('p, 'q) isl_pw_aff" where
  "pw_aff_or lhs rhs =
     (let d = isl_set_intersect (isl_pw_aff_domain lhs) (isl_pw_aff_domain rhs);
          cond = isl_set_union (isl_pw_aff_non_zero_set lhs) (isl_pw_aff_non_zero_set rhs);
          cond = isl_set_coalesce cond
      in indicator_function cond d)"

text \<open>
  \<open>combine_skips\<close> writes into \<open>ext\<close>, which is a fresh scop or one of \<open>ext1\<close>,
  \<open>ext2\<close>.  Each call touches the slot of its own skip type only, so the result is
  \<open>ext\<close> with that slot set; when \<open>ext\<close> is the side that owns the only skip, setting
  the slot to that skip leaves it as it is.
\<close>

definition combine_skips ::
  "('p, 'q) pet_scop \<Rightarrow> ('p, 'q) pet_scop \<Rightarrow> ('p, 'q) pet_scop \<Rightarrow> pet_skip
     \<Rightarrow> isl_error + ('p, 'q) pet_scop" where
  "combine_skips ext ext1 ext2 type =
     (case (scop_skip ext1 type, scop_skip ext2 type) of
        (None, None) \<Rightarrow> Inr ext
      | (None, Some s2) \<Rightarrow> Inr (ext\<lparr>scop_skip := (scop_skip ext)(type := Some s2)\<rparr>)
      | (Some s1, None) \<Rightarrow> Inr (ext\<lparr>scop_skip := (scop_skip ext)(type := Some s1)\<rparr>)
      | (Some s1, Some s2) \<Rightarrow>
          if \<not> multi_pw_aff_is_affine s1 \<or> \<not> multi_pw_aff_is_affine s2
          then Inl (isl_error_internal ''can only combine affine skips'')
          else ebind (isl_multi_pw_aff_get_pw_aff s1 0) (\<lambda>skip1.
               ebind (isl_multi_pw_aff_get_pw_aff s2 0) (\<lambda>skip2.
               Inr (ext\<lparr>scop_skip := (scop_skip ext)
                      (type := Some (isl_multi_pw_aff_from_pw_aff (pw_aff_or skip1 skip2)))\<rparr>))))"

definition scop_combine_skips ::
  "('p, 'q) pet_scop \<Rightarrow> ('p, 'q) pet_scop \<Rightarrow> ('p, 'q) pet_scop \<Rightarrow> isl_error + ('p, 'q) pet_scop" where
  "scop_combine_skips scop scop1 scop2 =
     ebind (combine_skips scop scop1 scop2 pet_skip_now) (\<lambda>ext.
       combine_skips ext scop1 scop2 pet_skip_later)"

definition pet_scop_update_start_end :: "('p, 'q) pet_scop \<Rightarrow> nat \<Rightarrow> nat \<Rightarrow> ('p, 'q) pet_scop" where
  "pet_scop_update_start_end scop start end' =
     (if scop_loc scop = pet_loc_dummy
      then scop\<lparr>scop_loc := pet_loc_alloc start end' (- 1)\<rparr>
      else scop\<lparr>scop_loc := pet_loc_update_start_end (scop_loc scop) start end'\<rparr>)"

definition pet_scop_update_start_end_from_loc :: "('p, 'q) pet_scop \<Rightarrow> pet_loc \<Rightarrow> ('p, 'q) pet_scop" where
  "pet_scop_update_start_end_from_loc scop loc =
     pet_scop_update_start_end scop (pet_loc_get_start loc) (pet_loc_get_end loc)"

definition is_known_implication :: "('p, 'q) pet_scop \<Rightarrow> ('p, 'q) pet_implication \<Rightarrow> bool" where
  "is_known_implication scop implication =
     list_ex (\<lambda>pi. impl_satisfied pi = impl_satisfied implication \<and>
                   isl_map_is_equal (impl_extension pi) (impl_extension implication))
       (scop_implications scop)"

text \<open>
  While the implications of \<open>scop2\<close> are appended, the counter of \<open>scop\<close> still holds
  the number of implications of \<open>scop1\<close>: each one is looked up among those only.
\<close>

definition scop_collect_implications ::
  "('p, 'q) pet_scop \<Rightarrow> ('p, 'q) pet_scop \<Rightarrow> ('p, 'q) pet_scop \<Rightarrow> ('p, 'q) pet_scop" where
  "scop_collect_implications scop scop1 scop2 =
     (if scop_implications scop2 = [] then scop\<lparr>scop_implications := scop_implications scop1\<rparr>
      else if scop_implications scop1 = [] then scop\<lparr>scop_implications := scop_implications scop2\<rparr>
      else
        (let known = scop\<lparr>scop_implications := scop_implications scop1\<rparr>
         in scop\<lparr>scop_implications := scop_implications scop1 @
               filter (\<lambda>pi. \<not> is_known_implication known pi) (scop_implications scop2)\<rparr>))"

definition scop_combine_start_end ::
  "('p, 'q) pet_scop \<Rightarrow> ('p, 'q) pet_scop \<Rightarrow> ('p, 'q) pet_scop \<Rightarrow> ('p, 'q) pet_scop" where
  "scop_combine_start_end scop scop1 scop2 =
     (let scop = (if scop_loc scop1 \<noteq> pet_loc_dummy
                  then pet_scop_update_start_end_from_loc scop (scop_loc scop1) else scop)
      in if scop_loc scop2 \<noteq> pet_loc_dummy
         then pet_scop_update_start_end_from_loc scop (scop_loc scop2) else scop)"

definition pet_scop_restrict_context :: "('p, 'q) pet_scop \<Rightarrow> ('p \<times> 'q) set \<Rightarrow> ('p, 'q) pet_scop" where
  "pet_scop_restrict_context scop c =
     scop\<lparr>scop_context := scop_context scop \<inter> pet_nested_remove_from_set c\<rparr>"

definition pet_scop_add ::
  "('p, 'q) pet_scop \<Rightarrow> ('p, 'q) pet_scop \<Rightarrow> isl_error + ('p, 'q) pet_scop" where
  "pet_scop_add scop1 scop2 =
     (if length (scop_stmts scop1) = 0 then scop_combine_skips scop2 scop1 scop2
      else if length (scop_stmts scop2) = 0 then scop_combine_skips scop1 scop1 scop2
      else
        (let scop = scop_alloc;
             scop = scop\<lparr>scop_arrays := scop_arrays scop1 @ scop_arrays scop2\<rparr>;
             scop = scop\<lparr>scop_stmts := scop_stmts scop1 @ scop_stmts scop2\<rparr>;
             scop = scop_collect_implications scop scop1 scop2;
             scop = pet_scop_restrict_context scop (scop_context scop1);
             scop = pet_scop_restrict_context scop (scop_context scop2)
         in ebind (scop_combine_skips scop scop1 scop2) (\<lambda>scop.
              Inr (scop_combine_start_end scop scop1 scop2))))"



section \<open>Restriction to a parameter condition\<close>

text \<open>The library returns null for a null set: a statement without domain stays so.\<close>

definition stmt_restrict :: "('p, 'q) pet_stmt \<Rightarrow> ('p \<times> 'q) set \<Rightarrow> ('p, 'q) pet_stmt" where
  "stmt_restrict stmt cond =
     stmt\<lparr>stmt_domain := map_option (\<lambda>d. isl_set_intersect_params d cond) (stmt_domain stmt)\<rparr>"

definition pet_scop_restrict_skip ::
  "('p, 'q) pet_scop \<Rightarrow> pet_skip \<Rightarrow> ('p \<times> 'q) set \<Rightarrow> isl_error + ('p, 'q) pet_scop" where
  "pet_scop_restrict_skip scop type cond =
     (case scop_skip scop type of
        None \<Rightarrow> Inr scop
      | Some sk \<Rightarrow>
          if \<not> multi_pw_aff_is_affine sk
          then Inl (isl_error_internal ''can only restrict affine skips'')
          else ebind (isl_multi_pw_aff_get_pw_aff sk 0) (\<lambda>skip.
            (let d = isl_pw_aff_domain skip;
                 c = isl_set_from_params cond;
                 c = isl_set_intersect c (isl_pw_aff_non_zero_set skip);
                 skip = indicator_function c d
             in Inr (scop\<lparr>scop_skip := (scop_skip scop)
                        (type := Some (isl_multi_pw_aff_from_pw_aff skip))\<rparr>))))"

definition pet_scop_restrict ::
  "('p, 'q) pet_scop \<Rightarrow> ('p \<times> 'q) set \<Rightarrow> isl_error + ('p, 'q) pet_scop" where
  "pet_scop_restrict scop cond =
     ebind (pet_scop_restrict_skip scop pet_skip_now cond) (\<lambda>scop.
     ebind (pet_scop_restrict_skip scop pet_skip_later cond) (\<lambda>scop.
       (let scop = scop\<lparr>scop_context := scop_context scop \<inter> cond\<rparr>;
            scop = scop\<lparr>scop_context := scop_context scop \<union> - cond\<rparr>;
            scop = scop\<lparr>scop_context := isl_set_coalesce (scop_context scop)\<rparr>;
            scop = scop\<lparr>scop_context := pet_nested_remove_from_set (scop_context scop)\<rparr>
        in Inr (scop\<lparr>scop_stmts := map (\<lambda>stmt. stmt_restrict stmt cond) (scop_stmts scop)\<rparr>))))"

section \<open>Filters and implications\<close>

text \<open>
  The space of the iteration domain of a statement: its tuple identifier and dimension.
  For a statement with arguments it is the domain of the wrapped relation.  A statement
  without domain has no space.
\<close>

definition pet_stmt_get_space :: "('p, 'q) pet_stmt \<Rightarrow> (isl_id option \<times> nat) option" where
  "pet_stmt_get_space stmt =
     (case stmt_domain stmt of
        None \<Rightarrow> None
      | Some (Isl_set i n P) \<Rightarrow> Some (i, n)
      | Some (Isl_wrap i m) \<Rightarrow> Some (map_in_id m, map_n_in m))"

text \<open>
  Modelled from the spec: \<open>pet_expr_from_index\<close> and \<open>pet_expr_access_get_id\<close> of
  expr.c.  The first builds the "synthetic read argument (of the test)": a read access
  whose access relation is the relation of the index expression.  The second returns the
  identifier of the accessed array, the identifier of the range of the access relation.
\<close>

definition pet_expr_from_index :: "('p, 'q) isl_multi_pw_aff \<Rightarrow> ('p, 'q) pet_expr" where
  "pet_expr_from_index index =
     Pet_expr_access (isl_map_from_multi_pw_aff index) index True False []"

definition pet_expr_access_get_id :: "('p, 'q) pet_expr \<Rightarrow> isl_id option" where
  "pet_expr_access_get_id expr = map_out_id (acc_access expr)"

definition apply_implications ::
  "('p, 'q) pet_scop \<Rightarrow> ('p, 'q) isl_map \<Rightarrow> isl_id option \<Rightarrow> 32 word \<Rightarrow>
   isl_error + ('p, 'q) isl_map" where
  "apply_implications scop m a satisfied =
     (case find (\<lambda>pi. impl_satisfied pi = satisfied \<and> map_in_id (impl_extension pi) = a)
             (scop_implications scop) of
        None \<Rightarrow> Inr m
      | Some pi \<Rightarrow> isl_map_apply_range m (impl_extension pi))"

text \<open>
  \<open>implies_filter\<close> receives the unwrapped domain, which is a null pointer when the
  domain of the statement is not a wrapped relation; it is only looked at after the
  expression type and the identifiers have been compared.  The fixed value goes through
  the \<open>long\<close> that \<open>isl_val_get_num_si\<close> returns into the \<open>int\<close> \<open>s\<close>, which keeps its low
  32 bits, before it is compared with \<open>satisfied\<close>.
\<close>

definition implies_filter ::
  "('p, 'q) isl_plain \<Rightarrow> ('p, 'q) pet_scop \<Rightarrow> isl_error + ('p, 'q) isl_map \<Rightarrow> nat \<Rightarrow>
   ('p, 'q) pet_expr \<Rightarrow> ('p, 'q) isl_map \<Rightarrow> 32 word \<Rightarrow> isl_error + bool" where
  "implies_filter lib scop wdom pos expr test satisfied =
     (case expr of
        Pet_expr_op k as \<Rightarrow> Inr False
      | Pet_expr_access acc idx r w as \<Rightarrow>
          (let test_id = map_out_id test;
               arg_id = pet_expr_access_get_id expr
           in if test_id \<noteq> arg_id then Inr False
              else ebind (ebind wdom (\<lambda>d. isl_map_plain_get_val_if_fixed lib d pos)) (\<lambda>val.
                (let is_int = isl_val_is_int val;
                     s = (ucast (isl_val_get_num_si val) :: 32 word)
                 in if \<not> is_int then Inr False
                    else if s \<noteq> satisfied then Inr False
                    else ebind (apply_implications scop acc test_id satisfied) (\<lambda>implied.
                           Inr (isl_map_is_subset test implied))))))"

text \<open>The loop of \<open>filter_implied\<close> over the arguments, from position \<open>i\<close> on.\<close>

fun filter_implied_args ::
  "('p, 'q) isl_plain \<Rightarrow> ('p, 'q) pet_scop \<Rightarrow> isl_error + ('p, 'q) isl_map \<Rightarrow> nat \<Rightarrow>
   ('p, 'q) pet_expr list \<Rightarrow> ('p, 'q) isl_map \<Rightarrow> 32 word \<Rightarrow> isl_error + bool" where
  "filter_implied_args lib scop wdom i [] test satisfied = Inr False"
| "filter_implied_args lib scop wdom i (a # as) test satisfied =
     (case implies_filter lib scop wdom i a test satisfied of
        Inl e \<Rightarrow> Inl e
      | Inr implied \<Rightarrow>
          if implied then Inr True
          else filter_implied_args lib scop wdom (Suc i) as test satisfied)"

text \<open>The test is a null pointer when \<open>stmt_filter\<close> could not extend it.\<close>

definition filter_implied ::
  "('p, 'q) isl_plain \<Rightarrow> ('p, 'q) pet_scop \<Rightarrow> ('p, 'q) pet_stmt \<Rightarrow>
   ('p, 'q) isl_multi_pw_aff option \<Rightarrow> 32 word \<Rightarrow> isl_error + bool" where
  "filter_implied lib scop stmt test satisfied =
     (case test of
        None \<Rightarrow> Inl isl_error_none
      | Some test \<Rightarrow>
          if length (scop_implications scop) = 0 then Inr False
          else if length (stmt_args stmt) = 0 then Inr False
          else
            (let wdom = (case stmt_domain stmt of
                           None \<Rightarrow> Inl isl_error_none
                         | Some d \<Rightarrow> isl_set_unwrap d);
                 test_map = isl_map_from_multi_pw_aff test
             in filter_implied_args lib scop wdom 0 (stmt_args stmt) test_map satisfied))"

text \<open>
  What section 4.5 of the spec calls a filter that is already implied, said of the
  argument at position \<open>i\<close> of a statement: "a statement's existing argument is an access
  to the same virtual variable, fixed to the same \<open>satisfied\<close> value, whose access relation
  -- optionally widened through any registered implication for that value -- already
  contains (as a superset) the relation formed from the candidate test".  The value is the
  one that the library reports for filter value \<open>i\<close> of the wrapped domain, read through a
  \<open>long\<close> into an \<open>int\<close>; the widening is by the first implication registered for the
  variable and the value, whose extension must start in the space of the variable.
\<close>

definition filter_redundant ::
  "('p, 'q) isl_plain \<Rightarrow> ('p, 'q) pet_scop \<Rightarrow> ('p, 'q) pet_stmt \<Rightarrow> nat \<Rightarrow>
   ('p, 'q) isl_multi_pw_aff \<Rightarrow> 32 word \<Rightarrow> bool" where
  "filter_redundant lib scop stmt i test satisfied =
     (\<exists>acc idx r w as a m n.
        stmt_args stmt ! i = Pet_expr_access acc idx r w as \<and>
        map_out_id acc = mpa_out_id test \<and>
        stmt_domain stmt = Some (Isl_wrap a m) \<and> i < map_n_out m \<and>
        plain_fixed lib m i = Isl_val_int n \<and>
        (if - (2 ^ 63) \<le> n \<and> n < 2 ^ 63 then word_of_int n else 0) = satisfied \<and>
        map_in_id (isl_map_from_multi_pw_aff test) = map_in_id acc \<and>
        map_n_in (isl_map_from_multi_pw_aff test) = map_n_in acc \<and>
        (case find (\<lambda>pi. impl_satisfied pi = satisfied \<and>
                          map_in_id (impl_extension pi) = mpa_out_id test)
               (scop_implications scop) of
           None \<Rightarrow>
             map_n_out (isl_map_from_multi_pw_aff test) = map_n_out acc \<and>
             map_pts (isl_map_from_multi_pw_aff test) \<subseteq> map_pts acc
         | Some pi \<Rightarrow>
             map_n_out acc = map_n_in (impl_extension pi) \<and>
             mpa_out_id test = map_out_id (impl_extension pi) \<and>
             map_n_out (isl_map_from_multi_pw_aff test) = map_n_out (impl_extension pi) \<and>
             map_pts (isl_map_from_multi_pw_aff test) \<subseteq>
               {(v, x, z). \<exists>y. (v, x, y) \<in> map_pts acc \<and>
                               (v, y, z) \<in> map_pts (impl_extension pi)}))"

text \<open>
  The index expression \<open>test\<close> lives on the outer \<open>mpa_n_in test\<close> dimensions of the
  iteration domain ("zero or more outer dimensions"); \<open>stmt_filter\<close> pulls it back along
  the map that keeps these dimensions of a point of the statement space.
\<close>

definition extend_test :: "isl_id option \<times> nat \<Rightarrow> ('p, 'q) isl_multi_pw_aff \<Rightarrow> ('p, 'q) isl_multi_pw_aff" where
  "extend_test space test =
     \<lparr>mpa_in_id = fst space, mpa_n_in = snd space, mpa_out_id = mpa_out_id test,
      mpa_affs = map (\<lambda>f. (\<lambda>(v, x). f (v, take (mpa_n_in test) x))) (mpa_affs test)\<rparr>"

text \<open>
  Modelled from the spec: \<open>pet_filter_insert_pma\<close> of filter.c, applied by
  \<open>isl_set_preimage_pw_multi_aff\<close>, which must "extend its domain's wrapped-relation
  range with one new dimension pinned to \<open>satisfied\<close>"; a domain without arguments
  becomes a wrapped relation with that single output dimension.
\<close>

fun filter_insert :: "('p, 'q) isl_set \<Rightarrow> 32 word \<Rightarrow> ('p, 'q) isl_set" where
  "filter_insert (Isl_set i n P) satisfied =
     Isl_wrap None \<lparr>map_in_id = i, map_n_in = n, map_out_id = None, map_n_out = 1,
                    map_pts = (\<lambda>(v, x). (v, x, [sint satisfied])) ` P\<rparr>"
| "filter_insert (Isl_wrap i m) satisfied =
     Isl_wrap i (m\<lparr>map_n_out := map_n_out m + 1,
                   map_pts := (\<lambda>(v, x, f). (v, x, sint satisfied # f)) ` map_pts m\<rparr>)"

text \<open>
  A statement without domain has no space, and a statement space with fewer dimensions
  than the test has no affine expression for each of them: the extended test is null and
  \<open>filter_implied\<close> fails.  A test without tuple identifier makes
  \<open>isl_multi_pw_aff_get_tuple_id\<close> return null, and with it \<open>pet_filter_insert_pma\<close> and
  the preimage: the statement is returned with a null domain and the new argument.
\<close>

definition stmt_filter ::
  "('p, 'q) isl_plain \<Rightarrow> ('p, 'q) pet_scop \<Rightarrow> ('p, 'q) pet_stmt \<Rightarrow>
   ('p, 'q) isl_multi_pw_aff \<Rightarrow> 32 word \<Rightarrow> isl_error + ('p, 'q) pet_stmt" where
  "stmt_filter lib scop stmt test satisfied =
     (let test = (case pet_stmt_get_space stmt of
                    None \<Rightarrow> None
                  | Some space \<Rightarrow>
                      if mpa_n_in test \<le> snd space then Some (extend_test space test) else None)
      in ebind (filter_implied lib scop stmt test satisfied) (\<lambda>implied.
           if implied then Inr stmt
           else (case test of
                   None \<Rightarrow> Inl isl_error_none
                 | Some test \<Rightarrow>
                     (let d = (case mpa_out_id test of
                                 None \<Rightarrow> None
                               | Some a \<Rightarrow>
                                   map_option (\<lambda>d. filter_insert d satisfied) (stmt_domain stmt))
                      in Inr (stmt\<lparr>stmt_domain := d,
                                    stmt_args := pet_expr_from_index test # stmt_args stmt\<rparr>)))))"

definition pet_scop_has_skip :: "('p, 'q) pet_scop \<Rightarrow> pet_skip \<Rightarrow> bool" where
  "pet_scop_has_skip scop type = (scop_skip scop type \<noteq> None)"

definition pet_scop_has_affine_skip :: "('p, 'q) pet_scop \<Rightarrow> pet_skip \<Rightarrow> bool" where
  "pet_scop_has_affine_skip scop type =
     (case scop_skip scop type of None \<Rightarrow> False | Some sk \<Rightarrow> multi_pw_aff_is_affine sk)"

definition pet_scop_has_universal_skip ::
  "('p, 'q) isl_plain \<Rightarrow> ('p, 'q) pet_scop \<Rightarrow> pet_skip \<Rightarrow> isl_error + bool" where
  "pet_scop_has_universal_skip lib scop type =
     (if \<not> pet_scop_has_affine_skip scop type then Inr False
      else ebind (isl_multi_pw_aff_get_pw_aff (the (scop_skip scop type)) 0) (\<lambda>pa.
             Inr (isl_set_plain_is_universe lib (isl_pw_aff_non_zero_set pa))))"

definition pet_scop_set_skip ::
  "('p, 'q) pet_scop \<Rightarrow> pet_skip \<Rightarrow> ('p, 'q) isl_multi_pw_aff \<Rightarrow> ('p, 'q) pet_scop" where
  "pet_scop_set_skip scop type skip = scop\<lparr>scop_skip := (scop_skip scop)(type := Some skip)\<rparr>"


definition pet_scop_reset_skip :: "('p, 'q) pet_scop \<Rightarrow> pet_skip \<Rightarrow> ('p, 'q) pet_scop" where
  "pet_scop_reset_skip scop type = scop\<lparr>scop_skip := (scop_skip scop)(type := None)\<rparr>"

definition pet_scop_filter_skip ::
  "('p, 'q) isl_plain \<Rightarrow> ('p, 'q) pet_scop \<Rightarrow> pet_skip \<Rightarrow> ('p, 'q) isl_multi_pw_aff \<Rightarrow> 32 word
     \<Rightarrow> isl_error + ('p, 'q) pet_scop" where
  "pet_scop_filter_skip lib scop type test satisfied =
     (if \<not> pet_scop_has_skip scop type then Inr scop
      else ebind (if satisfied \<noteq> 0 then pet_scop_has_universal_skip lib scop type else Inr False)
        (\<lambda>is_univ.
           if satisfied \<noteq> 0 \<and> is_univ then Inr (pet_scop_set_skip scop type test)
           else Inl (isl_error_internal ''skip expression cannot be filtered'')))"

definition pet_scop_filter ::
  "('p, 'q) isl_plain \<Rightarrow> ('p, 'q) pet_scop \<Rightarrow> ('p, 'q) isl_multi_pw_aff \<Rightarrow> 32 word \<Rightarrow>
   isl_error + ('p, 'q) pet_scop" where
  "pet_scop_filter lib scop test satisfied =
     ebind (pet_scop_filter_skip lib scop pet_skip_now test satisfied) (\<lambda>scop.
     ebind (pet_scop_filter_skip lib scop pet_skip_later test satisfied) (\<lambda>scop.
     ebind (mapM_err (\<lambda>stmt. stmt_filter lib scop stmt test satisfied) (scop_stmts scop)) (\<lambda>stmts.
       Inr (scop\<lparr>scop_stmts := stmts\<rparr>))))"

section \<open>Sequential composition\<close>




section \<open>Embedding in a loop\<close>

definition extent_is_virtual_array :: "('p, 'q) isl_set \<Rightarrow> bool" where
  "extent_is_virtual_array extent =
     (if \<not> isl_set_has_tuple_id extent then False
      else if isl_set_is_wrapping extent then False
      else (case set_tuple_id extent of None \<Rightarrow> False | Some a \<Rightarrow> id_user a = None))"

definition isl_set_flat_product :: "('p, 'q) isl_set \<Rightarrow> ('p, 'q) isl_set \<Rightarrow> ('p, 'q) isl_set" where
  "isl_set_flat_product s t =
     Isl_set None (isl_set_dim s + isl_set_dim t)
       {(v, x @ y) | v x y. (v, x) \<in> isl_set_points s \<and> (v, y) \<in> isl_set_points t}"

definition pet_array_embed :: "('p, 'q) pet_array \<Rightarrow> ('p, 'q) isl_set \<Rightarrow> ('p, 'q) pet_array" where
  "pet_array_embed array dom' =
     (if \<not> extent_is_virtual_array (array_extent array) then array
      else (case set_tuple_id (array_extent array) of
              None \<Rightarrow> array
            | Some array_id \<Rightarrow>
                array\<lparr>array_extent :=
                  isl_set_set_tuple_id (isl_set_flat_product dom' (array_extent array)) array_id\<rparr>))"

definition isl_set_identity :: "('p, 'q) isl_set \<Rightarrow> ('p, 'q) isl_map" where
  "isl_set_identity s =
     \<lparr>map_in_id = set_tuple_id s, map_n_in = isl_set_dim s,
      map_out_id = set_tuple_id s, map_n_out = isl_set_dim s,
      map_pts = {(v, x, x) | v x. (v, x) \<in> isl_set_points s}\<rparr>"

definition isl_map_flat_product :: "('p, 'q) isl_map \<Rightarrow> ('p, 'q) isl_map \<Rightarrow> ('p, 'q) isl_map" where
  "isl_map_flat_product m1 m2 =
     \<lparr>map_in_id = None, map_n_in = map_n_in m1 + map_n_in m2,
      map_out_id = None, map_n_out = map_n_out m1 + map_n_out m2,
      map_pts = {(v, x1 @ x2, y1 @ y2) | v x1 x2 y1 y2.
                   (v, x1, y1) \<in> map_pts m1 \<and> (v, x2, y2) \<in> map_pts m2}\<rparr>"

text \<open>An extension without input tuple identifier makes the library fail.\<close>

definition pet_implication_embed ::
  "('p, 'q) pet_implication \<Rightarrow> ('p, 'q) isl_set \<Rightarrow> isl_error + ('p, 'q) pet_implication" where
  "pet_implication_embed implication dom' =
     (let m = isl_set_identity dom'
      in case map_in_id (impl_extension implication) of
           None \<Rightarrow> Inl (isl_error_invalid ''tuple has no id'')
         | Some a \<Rightarrow>
             (let m = isl_map_flat_product m (impl_extension implication);
                  m = m\<lparr>map_in_id := Some a\<rparr>;
                  m = m\<lparr>map_out_id := Some a\<rparr>
              in Inr (implication\<lparr>impl_extension := m\<rparr>)))"

text \<open>
  \<open>context_embed\<close> and \<open>pet_stmt_embed\<close> substitute the induction variable, a named
  parameter, in the context and in the domain, schedule and expressions of a statement.
  The parameter valuations above do not name single parameters, so both rewritings are
  arguments of \<open>pet_scop_embed\<close>: \<open>cembed\<close> for the context and \<open>sembed\<close> for a statement,
  each with its possible failure.  The loop over the arrays is the code's.
\<close>

definition pet_scop_embed ::
  "(('p \<times> 'q) set \<Rightarrow> isl_error + ('p \<times> 'q) set) \<Rightarrow>
   (('p, 'q) pet_stmt \<Rightarrow> isl_error + ('p, 'q) pet_stmt) \<Rightarrow>
   ('p, 'q) pet_scop \<Rightarrow> ('p, 'q) isl_set \<Rightarrow> isl_error + ('p, 'q) pet_scop" where
  "pet_scop_embed cembed sembed scop dom' =
     (let scop = pet_scop_reset_skip scop pet_skip_now;
          scop = pet_scop_reset_skip scop pet_skip_later
      in ebind (cembed (scop_context scop)) (\<lambda>c.
         ebind (mapM_err sembed (scop_stmts scop)) (\<lambda>stmts.
           (let arrays = map (\<lambda>array. pet_array_embed array dom') (scop_arrays scop)
            in ebind (mapM_err (\<lambda>pi. pet_implication_embed pi dom') (scop_implications scop))
                 (\<lambda>implications.
                    Inr (scop\<lparr>scop_context := c, scop_stmts := stmts, scop_arrays := arrays,
                              scop_implications := implications\<rparr>))))))"

section \<open>Gist\<close>

text \<open>
  \<open>isl_set_gist\<close> simplifies a set in a context.  The library promises that the result,
  intersected with the context, is the set intersected with the context, in the space of
  the set; which constraints are dropped depends on the representation.  The operation
  is therefore an argument \<open>gist\<close> of the functions below, and \<open>gist_contract\<close> is the
  promise.  In the same way \<open>isl_map_gist_domain\<close> and \<open>isl_multi_pw_aff_gist\<close> are the
  arguments \<open>mgist\<close> and \<open>igist\<close>: the result keeps the space and, on the points of the
  context, the pairs of the relation and the values of the expression.
  \<open>pet_value_bounds_apply\<close> (value_bounds.c) is the argument \<open>vbapply\<close>.
\<close>

fun isl_set_same_space :: "('p, 'q) isl_set \<Rightarrow> ('p, 'q) isl_set \<Rightarrow> bool" where
  "isl_set_same_space (Isl_set i n P) (Isl_set j k Q) = (i = j \<and> n = k)"
| "isl_set_same_space (Isl_wrap i m) (Isl_wrap j l) =
     (i = j \<and> map_in_id m = map_in_id l \<and> map_n_in m = map_n_in l \<and>
      map_out_id m = map_out_id l \<and> map_n_out m = map_n_out l)"
| "isl_set_same_space s t = False"

definition gist_contract :: "(('p, 'q) isl_set \<Rightarrow> ('p, 'q) isl_set \<Rightarrow> ('p, 'q) isl_set) \<Rightarrow> bool" where
  "gist_contract gist =
     (\<forall>s c. isl_set_same_space s c \<longrightarrow>
        isl_set_same_space (gist s c) s \<and> isl_set_intersect (gist s c) c = isl_set_intersect s c)"

definition isl_map_intersect_domain :: "('p, 'q) isl_map \<Rightarrow> ('p, 'q) isl_set \<Rightarrow> ('p, 'q) isl_map" where
  "isl_map_intersect_domain m d =
     m\<lparr>map_pts := {(v, x, y). (v, x, y) \<in> map_pts m \<and> (v, x) \<in> isl_set_points d}\<rparr>"

definition isl_multi_pw_aff_intersect_domain ::
  "('p, 'q) isl_multi_pw_aff \<Rightarrow> ('p, 'q) isl_set \<Rightarrow> ('p, 'q) isl_multi_pw_aff" where
  "isl_multi_pw_aff_intersect_domain mpa d =
     mpa\<lparr>mpa_affs := map (\<lambda>f pt. if pt \<in> isl_set_points d then f pt else None) (mpa_affs mpa)\<rparr>"

definition map_gist_contract ::
  "(('p, 'q) isl_map \<Rightarrow> ('p, 'q) isl_set \<Rightarrow> ('p, 'q) isl_map) \<Rightarrow> bool" where
  "map_gist_contract mgist =
     (\<forall>m d. isl_map_intersect_domain (mgist m d) d = isl_map_intersect_domain m d)"

definition index_gist_contract ::
  "(('p, 'q) isl_multi_pw_aff \<Rightarrow> ('p, 'q) isl_set \<Rightarrow> ('p, 'q) isl_multi_pw_aff) \<Rightarrow> bool" where
  "index_gist_contract igist =
     (\<forall>i d. isl_multi_pw_aff_intersect_domain (igist i d) d =
             isl_multi_pw_aff_intersect_domain i d)"

fun isl_set_universe_like :: "('p, 'q) isl_set \<Rightarrow> ('p, 'q) isl_set" where
  "isl_set_universe_like (Isl_set i n P) = Isl_set i n {(v, x). length x = n}"
| "isl_set_universe_like (Isl_wrap i m) =
     Isl_wrap i (m\<lparr>map_pts := {(v, x, y). length x = map_n_in m \<and> length y = map_n_out m}\<rparr>)"

definition isl_set_universe :: "isl_id option \<times> nat \<Rightarrow> ('p, 'q) isl_set" where
  "isl_set_universe space = Isl_set (fst space) (snd space) {(v, x). length x = snd space}"

definition isl_set_gist_params ::
  "(('p, 'q) isl_set \<Rightarrow> ('p, 'q) isl_set \<Rightarrow> ('p, 'q) isl_set) \<Rightarrow>
   ('p, 'q) isl_set \<Rightarrow> ('p \<times> 'q) set \<Rightarrow> ('p, 'q) isl_set" where
  "isl_set_gist_params gist s c =
     gist s (isl_set_intersect_params (isl_set_universe_like s) c)"

definition isl_map_domain :: "('p, 'q) isl_map \<Rightarrow> ('p, 'q) isl_set" where
  "isl_map_domain m = Isl_set (map_in_id m) (map_n_in m) {(v, x). \<exists>y. (v, x, y) \<in> map_pts m}"

text \<open>
  Modelled from the spec: \<open>pet_expr_gist\<close> of expr.c, which for "every set/relation"
  of an expression must "remove constraints implied by the global parameter context and by
  externally supplied value-bound facts for statement arguments".  It walks the tree; at
  an access it simplifies the access relation and the index expression in the context it
  is given, which the value bounds of the arguments of the access narrow when it has
  arguments.
\<close>

fun pet_expr_gist ::
  "(('p, 'q) isl_map \<Rightarrow> ('p, 'q) isl_set \<Rightarrow> ('p, 'q) isl_map) \<Rightarrow>
   (('p, 'q) isl_multi_pw_aff \<Rightarrow> ('p, 'q) isl_set \<Rightarrow> ('p, 'q) isl_multi_pw_aff) \<Rightarrow>
   (('p, 'q) isl_set \<Rightarrow> ('p, 'q) pet_expr list \<Rightarrow> 'b \<Rightarrow> ('p, 'q) isl_set) \<Rightarrow>
   ('p, 'q) pet_expr \<Rightarrow> ('p, 'q) isl_set \<Rightarrow> 'b \<Rightarrow> ('p, 'q) pet_expr" where
  "pet_expr_gist mgist igist vbapply (Pet_expr_op k as) ctx value_bounds =
     Pet_expr_op k (map (\<lambda>a. pet_expr_gist mgist igist vbapply a ctx value_bounds) as)"
| "pet_expr_gist mgist igist vbapply (Pet_expr_access acc idx r w as) ctx value_bounds =
     (let as = map (\<lambda>a. pet_expr_gist mgist igist vbapply a ctx value_bounds) as;
          d = (if length as > 0 then vbapply ctx as value_bounds else ctx)
      in Pet_expr_access (mgist acc d) (igist idx d) r w as)"

text \<open>
  Two expressions are the same within a context: they have the same shape, flags and
  operators, and at every access the access relations have the same pairs and the index
  expressions the same values on the points of the context, narrowed by the value bounds
  of the arguments of the access when it has arguments.
\<close>

fun pet_expr_same_within ::
  "(('p, 'q) isl_set \<Rightarrow> ('p, 'q) pet_expr list \<Rightarrow> 'b \<Rightarrow> ('p, 'q) isl_set) \<Rightarrow> 'b \<Rightarrow>
   ('p, 'q) isl_set \<Rightarrow> ('p, 'q) pet_expr \<Rightarrow> ('p, 'q) pet_expr \<Rightarrow> bool" where
  "pet_expr_same_within vbapply value_bounds ctx (Pet_expr_op k as) e' =
     (case e' of
        Pet_expr_op k' as' \<Rightarrow>
          k' = k \<and> list_all2 (pet_expr_same_within vbapply value_bounds ctx) as as'
      | Pet_expr_access acc' idx' r' w' as' \<Rightarrow> False)"
| "pet_expr_same_within vbapply value_bounds ctx (Pet_expr_access acc idx r w as) e' =
     (case e' of
        Pet_expr_op k' as' \<Rightarrow> False
      | Pet_expr_access acc' idx' r' w' as' \<Rightarrow>
          r' = r \<and> w' = w \<and>
          list_all2 (pet_expr_same_within vbapply value_bounds ctx) as as' \<and>
          (let d = (if length as' > 0 then vbapply ctx as' value_bounds else ctx)
           in isl_map_intersect_domain acc' d = isl_map_intersect_domain acc d \<and>
              isl_multi_pw_aff_intersect_domain idx' d = isl_multi_pw_aff_intersect_domain idx d))"

definition array_gist ::
  "(('p, 'q) isl_set \<Rightarrow> ('p, 'q) isl_set \<Rightarrow> ('p, 'q) isl_set) \<Rightarrow>
   ('p, 'q) pet_array \<Rightarrow> ('p \<times> 'q) set \<Rightarrow> ('p, 'q) pet_array" where
  "array_gist gist array c =
     array\<lparr>array_extent := isl_set_gist_params gist (array_extent array) c\<rparr>"

text \<open>
  The context in which \<open>stmt_gist\<close> simplifies the access relations of a statement: its
  iteration domain without the arguments, at the parameter values of the context.
\<close>

definition stmt_gist_domain ::
  "('p, 'q) pet_stmt \<Rightarrow> ('p \<times> 'q) set \<Rightarrow> isl_error + ('p, 'q) isl_set" where
  "stmt_gist_domain stmt c =
     (case stmt_domain stmt of
        None \<Rightarrow> Inl isl_error_none
      | Some d \<Rightarrow>
          ebind (if length (stmt_args stmt) > 0
                 then ebind (isl_set_unwrap d) (\<lambda>m. Inr (isl_map_domain m))
                 else Inr d) (\<lambda>d.
            Inr (isl_set_intersect_params d c)))"

text \<open>The context in which \<open>stmt_gist\<close> simplifies the iteration domain.\<close>

definition stmt_gist_context ::
  "(('p, 'q) isl_set \<Rightarrow> ('p, 'q) pet_expr list \<Rightarrow> 'b \<Rightarrow> ('p, 'q) isl_set) \<Rightarrow>
   ('p, 'q) pet_stmt \<Rightarrow> ('p \<times> 'q) set \<Rightarrow> 'b \<Rightarrow> ('p, 'q) isl_set option" where
  "stmt_gist_context vbapply stmt c value_bounds =
     map_option (\<lambda>space.
       (let d = isl_set_universe space;
            d = isl_set_intersect_params d c
        in if length (stmt_args stmt) > 0 then vbapply d (stmt_args stmt) value_bounds else d))
       (pet_stmt_get_space stmt)"

text \<open>
  The gist of a null domain is null, and \<open>stmt_gist\<close> fails; so it does when the
  domain and the context it is simplified in live in different spaces.
\<close>

definition stmt_gist ::
  "(('p, 'q) isl_set \<Rightarrow> ('p, 'q) isl_set \<Rightarrow> ('p, 'q) isl_set) \<Rightarrow>
   (('p, 'q) isl_map \<Rightarrow> ('p, 'q) isl_set \<Rightarrow> ('p, 'q) isl_map) \<Rightarrow>
   (('p, 'q) isl_multi_pw_aff \<Rightarrow> ('p, 'q) isl_set \<Rightarrow> ('p, 'q) isl_multi_pw_aff) \<Rightarrow>
   (('p, 'q) isl_set \<Rightarrow> ('p, 'q) pet_expr list \<Rightarrow> 'b \<Rightarrow> ('p, 'q) isl_set) \<Rightarrow>
   ('p, 'q) pet_stmt \<Rightarrow> ('p \<times> 'q) set \<Rightarrow> 'b \<Rightarrow> isl_error + ('p, 'q) pet_stmt" where
  "stmt_gist gist mgist igist vbapply stmt c value_bounds =
     ebind (stmt_gist_domain stmt c) (\<lambda>d.
       (let stmt = stmt\<lparr>stmt_args :=
                     map (\<lambda>a. pet_expr_gist mgist igist vbapply a d value_bounds) (stmt_args stmt)\<rparr>;
            stmt = stmt\<lparr>stmt_body :=
                     pet_expr_gist mgist igist vbapply (stmt_body stmt) d value_bounds\<rparr>
        in case (stmt_domain stmt, stmt_gist_context vbapply stmt c value_bounds) of
             (Some sd, Some k) \<Rightarrow>
               if isl_set_same_space sd k then Inr (stmt\<lparr>stmt_domain := Some (gist sd k)\<rparr>)
               else Inl (isl_error_invalid ''spaces do not match'')
           | _ \<Rightarrow> Inl isl_error_none))"

definition pet_scop_gist ::
  "(('p, 'q) isl_set \<Rightarrow> ('p, 'q) isl_set \<Rightarrow> ('p, 'q) isl_set) \<Rightarrow>
   (('p, 'q) isl_map \<Rightarrow> ('p, 'q) isl_set \<Rightarrow> ('p, 'q) isl_map) \<Rightarrow>
   (('p, 'q) isl_multi_pw_aff \<Rightarrow> ('p, 'q) isl_set \<Rightarrow> ('p, 'q) isl_multi_pw_aff) \<Rightarrow>
   (('p, 'q) isl_set \<Rightarrow> ('p, 'q) pet_expr list \<Rightarrow> 'b \<Rightarrow> ('p, 'q) isl_set) \<Rightarrow>
   ('p, 'q) pet_scop \<Rightarrow> 'b \<Rightarrow> isl_error + ('p, 'q) pet_scop" where
  "pet_scop_gist gist mgist igist vbapply scop value_bounds =
     (let scop = scop\<lparr>scop_context := isl_set_coalesce (scop_context scop)\<rparr>;
          scop = scop\<lparr>scop_arrays :=
                   map (\<lambda>array. array_gist gist array (scop_context scop)) (scop_arrays scop)\<rparr>
      in ebind (mapM_err (\<lambda>stmt. stmt_gist gist mgist igist vbapply stmt (scop_context scop) value_bounds)
                  (scop_stmts scop)) (\<lambda>stmts.
           Inr (scop\<lparr>scop_stmts := stmts\<rparr>)))"

section \<open>Example scops\<close>

text \<open>
  Small scops over one named parameter \<open>n\<close> (the valuation is the value of \<open>n\<close>; there
  are no unnamed parameters).  A statement has the zero-dimensional universe as iteration
  domain, as \<open>pet_stmt_from_pet_expr\<close> builds it.  \<open>ex_affine_skip k\<close> is the affine skip
  condition \<open>n = k\<close>; \<open>ex_var_skip\<close> is an access to the scalar test variable
  \<open>__pet_test_0\<close>.  \<open>ex_member_extent\<close> is the extent of a member access \<open>s_a[s[] -> a[]]\<close>:
  a wrapped relation whose own identifier has no user pointer.
\<close>

definition ex_id_S :: isl_id where "ex_id_S = Isl_id ''S_0'' None"

definition ex_id_T :: isl_id where "ex_id_T = Isl_id ''S_1'' None"

definition ex_id_test :: isl_id where "ex_id_test = Isl_id ''__pet_test_0'' None"

definition ex_id_other :: isl_id where "ex_id_other = Isl_id ''__pet_test_1'' None"

definition ex_id_A :: isl_id where "ex_id_A = Isl_id ''A'' (Some 1)"

definition ex_stmt :: "isl_id \<Rightarrow> (int, unit) pet_stmt" where
  "ex_stmt a =
     \<lparr>stmt_loc = Pet_loc 0 10 1,
      stmt_domain = Some (Isl_set (Some a) 0 {(v, x). x = []}),
      stmt_schedule = \<lparr>map_in_id = Some a, map_n_in = 0, map_out_id = None, map_n_out = 0,
                       map_pts = {(v, x, y). x = [] \<and> y = []}\<rparr>,
      stmt_body = Pet_expr_op 0 [],
      stmt_args = []\<rparr>"

definition ex_array :: "(int, unit) isl_set \<Rightarrow> (int, unit) pet_array" where
  "ex_array extent =
     \<lparr>array_context = UNIV, array_extent = extent, array_value_bounds = None,
      array_element_type = ''int'', array_element_is_record = False, array_element_size = 4,
      array_live_out = False, array_uniquely_defined = False, array_declared = False,
      array_exposed = False\<rparr>"

definition ex_named_extent :: "(int, unit) isl_set" where
  "ex_named_extent = Isl_set (Some ex_id_A) 1 {(v, x). length x = 1}"

definition ex_virtual_extent :: "(int, unit) isl_set" where
  "ex_virtual_extent = Isl_set (Some ex_id_test) 0 {(v, x). x = []}"

definition ex_member_extent :: "(int, unit) isl_set" where
  "ex_member_extent =
     Isl_wrap (Some (Isl_id ''s_a'' None))
       \<lparr>map_in_id = Some (Isl_id ''s'' (Some 2)), map_n_in = 0,
        map_out_id = Some (Isl_id ''a'' None), map_n_out = 0,
        map_pts = {(v, x, y). x = [] \<and> y = []}\<rparr>"

definition ex_scop :: "isl_id \<Rightarrow> (int, unit) pet_scop" where
  "ex_scop a = scop_alloc\<lparr>scop_loc := Pet_loc 0 10 1, scop_stmts := [ex_stmt a]\<rparr>"

definition ex_affine_skip :: "int \<Rightarrow> (int, unit) isl_multi_pw_aff" where
  "ex_affine_skip k =
     \<lparr>mpa_in_id = None, mpa_n_in = 0, mpa_out_id = None,
      mpa_affs = [\<lambda>((n, u), x). if x = [] then Some (if n = k then 1 else 0) else None]\<rparr>"

definition ex_var_skip :: "(int, unit) isl_multi_pw_aff" where
  "ex_var_skip = \<lparr>mpa_in_id = None, mpa_n_in = 0, mpa_out_id = Some ex_id_test, mpa_affs = []\<rparr>"

text \<open>
  \<open>ex_implication a v\<close> is an implication for the scalar test variable \<open>a\<close> and the value
  \<open>v\<close> whose extension relates the single element of the variable to itself.
\<close>

definition ex_implication :: "isl_id \<Rightarrow> 32 word \<Rightarrow> (int, unit) pet_implication" where
  "ex_implication a v =
     \<lparr>impl_extension = \<lparr>map_in_id = Some a, map_n_in = 0,
                         map_out_id = Some a, map_n_out = 0,
                         map_pts = {(v, x, y). x = [] \<and> y = []}\<rparr>,
      impl_satisfied = v\<rparr>"

text \<open>
  A library whose plain tests recognise a filter value that is 0 or 1 at every point of a
  relation with points, and every universe.  It keeps the promise of the library.
\<close>

definition ex_lib :: "(int, unit) isl_plain" where
  "ex_lib =
     \<lparr>plain_fixed = (\<lambda>m pos.
        if map_pts m \<noteq> {} \<and> map_pts m \<subseteq> {(v, x, y). y ! pos = 0} then Isl_val_int 0
        else if map_pts m \<noteq> {} \<and> map_pts m \<subseteq> {(v, x, y). y ! pos = 1} then Isl_val_int 1
        else Isl_val_nan),
      plain_universe = (\<lambda>s. isl_set_points s = {(v, x). length x = isl_set_dim s})\<rparr>"


text \<open>
  A gist that meets the promise of the library: it keeps the points of the set and adds
  every point of the space outside the context, that is, it drops every constraint that
  the context implies.  \<open>ex_map_gist\<close> does the same to a relation.
\<close>

fun ex_gist :: "('p, 'q) isl_set \<Rightarrow> ('p, 'q) isl_set \<Rightarrow> ('p, 'q) isl_set" where
  "ex_gist (Isl_set i n P) c = Isl_set i n (P \<union> ({(v, x). length x = n} - isl_set_points c))"
| "ex_gist (Isl_wrap i m) c =
     Isl_wrap i (m\<lparr>map_pts := map_pts m \<union>
        {(v, x, y). length x = map_n_in m \<and> length y = map_n_out m \<and>
                    (v, x @ y) \<notin> isl_set_points c}\<rparr>)"

definition ex_map_gist :: "('p, 'q) isl_map \<Rightarrow> ('p, 'q) isl_set \<Rightarrow> ('p, 'q) isl_map" where
  "ex_map_gist m d =
     m\<lparr>map_pts := map_pts m \<union>
        {(v, x, y). length x = map_n_in m \<and> length y = map_n_out m \<and> (v, x) \<notin> isl_set_points d}\<rparr>"

text \<open>
  \<open>ex_access\<close> is a read of \<open>A[i]\<close> for \<open>0 <= i < n\<close> from the statement \<open>S_0\<close>;
  \<open>ex_gist_scop\<close> holds a statement with this access as body and the array \<open>A\<close> in the
  context \<open>n >= 5\<close>.
\<close>

definition ex_access :: "(int, unit) pet_expr" where
  "ex_access =
     Pet_expr_access
       \<lparr>map_in_id = Some ex_id_S, map_n_in = 0, map_out_id = Some ex_id_A, map_n_out = 1,
        map_pts = {((n, u), x, y). x = [] \<and> (\<exists>i. y = [i] \<and> 0 \<le> i \<and> i < n) \<and> 5 \<le> n}\<rparr>
       \<lparr>mpa_in_id = Some ex_id_S, mpa_n_in = 0, mpa_out_id = Some ex_id_A, mpa_affs = []\<rparr>
       True False []"

definition ex_gist_scop :: "(int, unit) pet_scop" where
  "ex_gist_scop =
     scop_alloc\<lparr>scop_loc := Pet_loc 0 10 1,
        scop_context := {(n, u). 5 \<le> n},
        scop_arrays := [ex_array (Isl_set (Some ex_id_A) 1 {((n, u), x). 5 \<le> n \<and> length x = 1})],
        scop_stmts := [(ex_stmt ex_id_S)\<lparr>stmt_body := ex_access\<rparr>]\<rparr>"

section \<open>Properties of the composition\<close>

lemmas add_defs = pet_scop_add_def scop_combine_skips_def combine_skips_def ebind_def scop_alloc_def
  scop_collect_implications_def pet_scop_restrict_context_def scop_combine_start_end_def
  pet_scop_update_start_end_from_loc_def pet_scop_update_start_end_def pet_loc_alloc_def
  pet_nested_remove_from_set_def multi_pw_aff_is_affine_def isl_multi_pw_aff_get_pw_aff_def

lemma combine_skips_frame:
  assumes "combine_skips ext e1 e2 t = Inr R"
  shows "scop_loc R = scop_loc ext \<and> scop_context R = scop_context ext \<and>
         scop_context_value R = scop_context_value ext \<and> scop_types R = scop_types ext \<and>
         scop_arrays R = scop_arrays ext \<and> scop_stmts R = scop_stmts ext \<and>
         scop_implications R = scop_implications ext \<and> scop_input R = scop_input ext \<and>
         (\<forall>t'. t' \<noteq> t \<longrightarrow> scop_skip R t' = scop_skip ext t')"
  using assms
  by (auto simp: combine_skips_def ebind_def split: option.splits if_splits sum.splits)

lemma combine_skips_none:
  assumes "combine_skips ext e1 e2 t = Inr R" "scop_skip e1 t = None" "scop_skip e2 t = None"
  shows "scop_skip R t = scop_skip ext t"
  using assms by (auto simp: combine_skips_def)

lemma combine_skips_right:
  assumes "combine_skips ext e1 e2 t = Inr R" "scop_skip e1 t = None" "scop_skip e2 t = Some s"
  shows "scop_skip R t = Some s"
  using assms by (auto simp: combine_skips_def)

lemma combine_skips_left:
  assumes "combine_skips ext e1 e2 t = Inr R" "scop_skip e1 t = Some s" "scop_skip e2 t = None"
  shows "scop_skip R t = Some s"
  using assms by (auto simp: combine_skips_def)

lemma combine_skips_both:
  assumes "combine_skips ext e1 e2 t = Inr R" "scop_skip e1 t = Some s1" "scop_skip e2 t = Some s2"
  shows "multi_pw_aff_is_affine s1 \<and> multi_pw_aff_is_affine s2 \<and>
         (\<exists>pa1 pa2. isl_multi_pw_aff_get_pw_aff s1 0 = Inr pa1 \<and>
                    isl_multi_pw_aff_get_pw_aff s2 0 = Inr pa2 \<and>
                    scop_skip R t = Some (isl_multi_pw_aff_from_pw_aff (pw_aff_or pa1 pa2)))"
  using assms
  by (auto simp: combine_skips_def ebind_def split: if_splits sum.splits)

lemma scop_combine_skips_frame:
  assumes "scop_combine_skips ext e1 e2 = Inr R"
  shows "scop_loc R = scop_loc ext \<and> scop_context R = scop_context ext \<and>
         scop_context_value R = scop_context_value ext \<and> scop_types R = scop_types ext \<and>
         scop_arrays R = scop_arrays ext \<and> scop_stmts R = scop_stmts ext \<and>
         scop_implications R = scop_implications ext \<and> scop_input R = scop_input ext"
proof -
  from assms obtain M where m: "combine_skips ext e1 e2 pet_skip_now = Inr M"
    and r: "combine_skips M e1 e2 pet_skip_later = Inr R"
    by (auto simp: scop_combine_skips_def ebind_def split: sum.splits)
  from combine_skips_frame[OF m] combine_skips_frame[OF r] show ?thesis by simp
qed

lemma scop_combine_skips_slot:
  assumes "scop_combine_skips ext e1 e2 = Inr R"
  shows "\<exists>M R'. combine_skips M e1 e2 t = Inr R' \<and> scop_skip M t = scop_skip ext t \<and>
                 scop_skip R' t = scop_skip R t"
proof -
  from assms obtain M where m: "combine_skips ext e1 e2 pet_skip_now = Inr M"
    and r: "combine_skips M e1 e2 pet_skip_later = Inr R"
    by (auto simp: scop_combine_skips_def ebind_def split: sum.splits)
  show ?thesis
  proof (cases t)
    case pet_skip_now
    with m combine_skips_frame[OF r] show ?thesis by auto
  next
    case pet_skip_later
    from combine_skips_frame[OF m] have "scop_skip M pet_skip_later = scop_skip ext pet_skip_later"
      by simp
    with r pet_skip_later show ?thesis by blast
  qed
qed

lemma scop_combine_skips_fails:
  assumes "scop_skip e1 t = Some s1" "scop_skip e2 t = Some s2"
    and "\<not> multi_pw_aff_is_affine s1 \<or> \<not> multi_pw_aff_is_affine s2"
  shows "\<exists>e. scop_combine_skips ext e1 e2 = Inl e"
proof (cases "scop_combine_skips ext e1 e2")
  case (Inl e)
  then show ?thesis by blast
next
  case (Inr R)
  from scop_combine_skips_slot[OF Inr, of t] obtain M R' where
    "combine_skips M e1 e2 t = Inr R'" by blast
  with assms have False by (auto simp: combine_skips_def)
  then show ?thesis ..
qed

lemma pet_scop_add_skips:
  assumes "pet_scop_add A B = Inr R"
  shows "\<exists>M R'. combine_skips M A B t = Inr R' \<and> scop_skip R' t = scop_skip R t \<and>
           (scop_skip M t = scop_skip A t \<or> scop_skip M t = scop_skip B t \<or> scop_skip M t = None)"
proof -
  consider (a) "length (scop_stmts A) = 0" | (b) "length (scop_stmts A) \<noteq> 0" "length (scop_stmts B) = 0"
    | (c) "length (scop_stmts A) \<noteq> 0" "length (scop_stmts B) \<noteq> 0" by blast
  then show ?thesis
  proof cases
    case a
    with assms have "scop_combine_skips B A B = Inr R" by (simp add: pet_scop_add_def)
    from scop_combine_skips_slot[OF this, of t] show ?thesis by blast
  next
    case b
    with assms have "scop_combine_skips A A B = Inr R" by (simp add: pet_scop_add_def)
    from scop_combine_skips_slot[OF this, of t] show ?thesis by blast
  next
    case c
    with assms obtain ext R0 where e: "scop_combine_skips ext A B = Inr R0"
      and s: "scop_skip ext = (\<lambda>t. None)" and r: "R = scop_combine_start_end R0 A B"
      by (auto simp: pet_scop_add_def Let_def ebind_def scop_alloc_def scop_collect_implications_def
           pet_scop_restrict_context_def split: sum.splits if_splits)
    have "scop_skip R = scop_skip R0"
      by (simp add: r scop_combine_start_end_def Let_def pet_scop_update_start_end_from_loc_def
            pet_scop_update_start_end_def)
    with scop_combine_skips_slot[OF e, of t] s show ?thesis by auto
  qed
qed

lemma combine_skips_succeeds:
  assumes "\<forall>s1 s2. scop_skip A t = Some s1 \<and> scop_skip B t = Some s2 \<longrightarrow>
             multi_pw_aff_is_affine s1 \<and> multi_pw_aff_is_affine s2 \<and>
             mpa_affs s1 \<noteq> [] \<and> mpa_affs s2 \<noteq> []"
  shows "\<exists>R. combine_skips ext A B t = Inr R"
  using assms
  by (auto simp: combine_skips_def ebind_def isl_multi_pw_aff_get_pw_aff_def
        split: option.splits)

lemma scop_combine_skips_succeeds:
  assumes "\<forall>t s1 s2. scop_skip A t = Some s1 \<and> scop_skip B t = Some s2 \<longrightarrow>
             multi_pw_aff_is_affine s1 \<and> multi_pw_aff_is_affine s2 \<and>
             mpa_affs s1 \<noteq> [] \<and> mpa_affs s2 \<noteq> []"
  shows "\<exists>R. scop_combine_skips ext A B = Inr R"
proof -
  from combine_skips_succeeds[of A pet_skip_now B ext] assms
  obtain M where m: "combine_skips ext A B pet_skip_now = Inr M" by blast
  from combine_skips_succeeds[of A pet_skip_later B M] assms
  obtain R where "combine_skips M A B pet_skip_later = Inr R" by blast
  with m show ?thesis by (simp add: scop_combine_skips_def ebind_def)
qed

lemma pet_scop_add_succeeds:
  assumes "\<forall>t s1 s2. scop_skip A t = Some s1 \<and> scop_skip B t = Some s2 \<longrightarrow>
             multi_pw_aff_is_affine s1 \<and> multi_pw_aff_is_affine s2 \<and>
             mpa_affs s1 \<noteq> [] \<and> mpa_affs s2 \<noteq> []"
  shows "\<exists>R. pet_scop_add A B = Inr R"
proof -
  note s = scop_combine_skips_succeeds[OF assms]
  show ?thesis
  proof (cases "length (scop_stmts A) = 0")
    case True
    with s[of B] show ?thesis by (simp add: pet_scop_add_def)
  next
    case False
    note a = this
    show ?thesis
    proof (cases "length (scop_stmts B) = 0")
      case True
      with a s[of A] show ?thesis by (simp add: pet_scop_add_def)
    next
      case False
      with a have "\<exists>ext. pet_scop_add A B =
          ebind (scop_combine_skips ext A B) (\<lambda>scop. Inr (scop_combine_start_end scop A B))"
        by (auto simp: pet_scop_add_def Let_def)
      then obtain ext where e: "pet_scop_add A B =
          ebind (scop_combine_skips ext A B) (\<lambda>scop. Inr (scop_combine_start_end scop A B))" ..
      from s[of ext] obtain R0 where "scop_combine_skips ext A B = Inr R0" ..
      with e show ?thesis by (simp add: ebind_def)
    qed
  qed
qed

lemma pet_scop_add_general:
  assumes "length (scop_stmts A) \<noteq> 0" "length (scop_stmts B) \<noteq> 0" "pet_scop_add A B = Inr R"
  shows "scop_stmts R = scop_stmts A @ scop_stmts B \<and> scop_arrays R = scop_arrays A @ scop_arrays B \<and>
         scop_types R = [] \<and>
         scop_implications R = scop_implications A @
           filter (\<lambda>pi. \<not> is_known_implication A pi) (scop_implications B) \<and>
         scop_context R = pet_nested_remove_from_set (scop_context A) \<inter>
                          pet_nested_remove_from_set (scop_context B)"
proof -
  from assms obtain ext R0 where e: "scop_combine_skips ext A B = Inr R0"
      and s: "scop_stmts ext = scop_stmts A @ scop_stmts B"
             "scop_arrays ext = scop_arrays A @ scop_arrays B" "scop_types ext = []"
             "scop_implications ext = scop_implications A @
                filter (\<lambda>pi. \<not> is_known_implication A pi) (scop_implications B)"
             "scop_context ext = pet_nested_remove_from_set (scop_context A) \<inter>
                          pet_nested_remove_from_set (scop_context B)"
      and r: "R = scop_combine_start_end R0 A B"
    by (auto simp: pet_scop_add_def Let_def ebind_def scop_alloc_def scop_collect_implications_def
           pet_scop_restrict_context_def is_known_implication_def split: sum.splits if_splits)
  have "scop_stmts R = scop_stmts R0 \<and> scop_arrays R = scop_arrays R0 \<and>
        scop_types R = scop_types R0 \<and> scop_implications R = scop_implications R0 \<and>
        scop_context R = scop_context R0"
    by (simp add: r scop_combine_start_end_def Let_def pet_scop_update_start_end_from_loc_def
            pet_scop_update_start_end_def)
  with scop_combine_skips_frame[OF e] s show ?thesis by simp
qed


text \<open>
  Claim C2.  Whenever \<open>pet_scop_add\<close> returns a scop, each skip type of the result is
  combined from the two sides: none if neither side has one; the one that is present,
  unchanged, if exactly one side has one; and if both are present and affine, the
  indicator function of the union of the two non-zero sets on the intersection of the two
  definition domains (coalescing does not change the points).  Its definition domain is
  the intersection of the two domains and its non-zero set is the union of the two
  non-zero sets within that shared domain.
\<close>

theorem combine_skips_cases:
  assumes "pet_scop_add A B = Inr R"
  shows "(scop_skip A t = None \<and> scop_skip B t = None \<longrightarrow> scop_skip R t = None) \<and>
         (scop_skip A t = None \<and> scop_skip B t \<noteq> None \<longrightarrow> scop_skip R t = scop_skip B t) \<and>
         (scop_skip A t \<noteq> None \<and> scop_skip B t = None \<longrightarrow> scop_skip R t = scop_skip A t) \<and>
         (\<forall>s1 s2. scop_skip A t = Some s1 \<and> scop_skip B t = Some s2 \<and>
             multi_pw_aff_is_affine s1 \<and> multi_pw_aff_is_affine s2 \<longrightarrow>
             (\<exists>pa1 pa2. isl_multi_pw_aff_get_pw_aff s1 0 = Inr pa1 \<and>
                isl_multi_pw_aff_get_pw_aff s2 0 = Inr pa2 \<and>
                scop_skip R t = Some (isl_multi_pw_aff_from_pw_aff
                  (indicator_function
                     (isl_set_union (isl_pw_aff_non_zero_set pa1) (isl_pw_aff_non_zero_set pa2))
                     (isl_set_intersect (isl_pw_aff_domain pa1) (isl_pw_aff_domain pa2)))) \<and>
                isl_set_points (isl_pw_aff_domain (pw_aff_or pa1 pa2)) =
                  {(v, x). length x = pa_n_in pa1 \<and>
                     (v, x) \<in> isl_set_points (isl_pw_aff_domain pa1) \<inter>
                              isl_set_points (isl_pw_aff_domain pa2)} \<and>
                isl_set_points (isl_pw_aff_non_zero_set (pw_aff_or pa1 pa2)) =
                  {(v, x). length x = pa_n_in pa1 \<and>
                     (v, x) \<in> (isl_set_points (isl_pw_aff_non_zero_set pa1) \<union>
                               isl_set_points (isl_pw_aff_non_zero_set pa2)) \<inter>
                              (isl_set_points (isl_pw_aff_domain pa1) \<inter>
                               isl_set_points (isl_pw_aff_domain pa2))}))"
proof -
  from pet_scop_add_skips[OF assms, of t] obtain M R' where
    c: "combine_skips M A B t = Inr R'" and e: "scop_skip R' t = scop_skip R t" and
    m: "scop_skip M t = scop_skip A t \<or> scop_skip M t = scop_skip B t \<or> scop_skip M t = None"
    by blast
  have 1: "scop_skip A t = None \<and> scop_skip B t = None \<longrightarrow> scop_skip R t = None"
    using combine_skips_none[OF c] e m by auto
  have 2: "scop_skip A t = None \<and> scop_skip B t \<noteq> None \<longrightarrow> scop_skip R t = scop_skip B t"
    using combine_skips_right[OF c] e by auto
  have 3: "scop_skip A t \<noteq> None \<and> scop_skip B t = None \<longrightarrow> scop_skip R t = scop_skip A t"
    using combine_skips_left[OF c] e by auto
  have pts: "\<And>pa1 pa2 :: ('a, 'b) isl_pw_aff.
     isl_set_points (isl_pw_aff_domain (pw_aff_or pa1 pa2)) =
                  {(v, x). length x = pa_n_in pa1 \<and>
                     (v, x) \<in> isl_set_points (isl_pw_aff_domain pa1) \<inter>
                              isl_set_points (isl_pw_aff_domain pa2)} \<and>
                isl_set_points (isl_pw_aff_non_zero_set (pw_aff_or pa1 pa2)) =
                  {(v, x). length x = pa_n_in pa1 \<and>
                     (v, x) \<in> (isl_set_points (isl_pw_aff_non_zero_set pa1) \<union>
                               isl_set_points (isl_pw_aff_non_zero_set pa2)) \<inter>
                              (isl_set_points (isl_pw_aff_domain pa1) \<inter>
                               isl_set_points (isl_pw_aff_domain pa2))}"
    by (auto simp: pw_aff_or_def Let_def indicator_function_def isl_pw_aff_intersect_domain_def
          isl_set_indicator_function_def isl_pw_aff_domain_def isl_pw_aff_non_zero_set_def
          isl_set_intersect_def isl_set_coalesce_def split: if_splits)
  have 4: "\<forall>s1 s2. scop_skip A t = Some s1 \<and> scop_skip B t = Some s2 \<and>
             multi_pw_aff_is_affine s1 \<and> multi_pw_aff_is_affine s2 \<longrightarrow>
             (\<exists>pa1 pa2. isl_multi_pw_aff_get_pw_aff s1 0 = Inr pa1 \<and>
                isl_multi_pw_aff_get_pw_aff s2 0 = Inr pa2 \<and>
                scop_skip R t = Some (isl_multi_pw_aff_from_pw_aff
                  (indicator_function
                     (isl_set_union (isl_pw_aff_non_zero_set pa1) (isl_pw_aff_non_zero_set pa2))
                     (isl_set_intersect (isl_pw_aff_domain pa1) (isl_pw_aff_domain pa2)))) \<and>
                isl_set_points (isl_pw_aff_domain (pw_aff_or pa1 pa2)) =
                  {(v, x). length x = pa_n_in pa1 \<and>
                     (v, x) \<in> isl_set_points (isl_pw_aff_domain pa1) \<inter>
                              isl_set_points (isl_pw_aff_domain pa2)} \<and>
                isl_set_points (isl_pw_aff_non_zero_set (pw_aff_or pa1 pa2)) =
                  {(v, x). length x = pa_n_in pa1 \<and>
                     (v, x) \<in> (isl_set_points (isl_pw_aff_non_zero_set pa1) \<union>
                               isl_set_points (isl_pw_aff_non_zero_set pa2)) \<inter>
                              (isl_set_points (isl_pw_aff_domain pa1) \<inter>
                               isl_set_points (isl_pw_aff_domain pa2))})"
  proof (intro allI impI)
    fix s1 s2
    assume h: "scop_skip A t = Some s1 \<and> scop_skip B t = Some s2 \<and>
             multi_pw_aff_is_affine s1 \<and> multi_pw_aff_is_affine s2"
    from combine_skips_both[OF c, of s1 s2] h obtain pa1 pa2 where
      g: "isl_multi_pw_aff_get_pw_aff s1 0 = Inr pa1" "isl_multi_pw_aff_get_pw_aff s2 0 = Inr pa2"
         "scop_skip R' t = Some (isl_multi_pw_aff_from_pw_aff (pw_aff_or pa1 pa2))" by blast
    have "pw_aff_or pa1 pa2 = indicator_function
                     (isl_set_union (isl_pw_aff_non_zero_set pa1) (isl_pw_aff_non_zero_set pa2))
                     (isl_set_intersect (isl_pw_aff_domain pa1) (isl_pw_aff_domain pa2))"
      by (simp add: pw_aff_or_def Let_def isl_set_coalesce_def)
    with g e pts[of pa1 pa2] show "\<exists>pa1 pa2. isl_multi_pw_aff_get_pw_aff s1 0 = Inr pa1 \<and>
                isl_multi_pw_aff_get_pw_aff s2 0 = Inr pa2 \<and>
                scop_skip R t = Some (isl_multi_pw_aff_from_pw_aff
                  (indicator_function
                     (isl_set_union (isl_pw_aff_non_zero_set pa1) (isl_pw_aff_non_zero_set pa2))
                     (isl_set_intersect (isl_pw_aff_domain pa1) (isl_pw_aff_domain pa2)))) \<and>
                isl_set_points (isl_pw_aff_domain (pw_aff_or pa1 pa2)) =
                  {(v, x). length x = pa_n_in pa1 \<and>
                     (v, x) \<in> isl_set_points (isl_pw_aff_domain pa1) \<inter>
                              isl_set_points (isl_pw_aff_domain pa2)} \<and>
                isl_set_points (isl_pw_aff_non_zero_set (pw_aff_or pa1 pa2)) =
                  {(v, x). length x = pa_n_in pa1 \<and>
                     (v, x) \<in> (isl_set_points (isl_pw_aff_non_zero_set pa1) \<union>
                               isl_set_points (isl_pw_aff_non_zero_set pa2)) \<inter>
                              (isl_set_points (isl_pw_aff_domain pa1) \<inter>
                               isl_set_points (isl_pw_aff_domain pa2))}"
      by auto
  qed
  from 1 2 3 4 show ?thesis by blast
qed

theorem combine_skips_cases_witness:
  "\<exists>R. pet_scop_add (pet_scop_set_skip (ex_scop ex_id_S) pet_skip_now (ex_affine_skip 1))
          (pet_scop_set_skip (ex_scop ex_id_T) pet_skip_now (ex_affine_skip 2)) = Inr R \<and>
       scop_skip R pet_skip_later = None \<and>
       (\<exists>pa1 pa2.
          isl_multi_pw_aff_get_pw_aff (ex_affine_skip 1) 0 = Inr pa1 \<and>
          isl_multi_pw_aff_get_pw_aff (ex_affine_skip 2) 0 = Inr pa2 \<and>
          scop_skip R pet_skip_now = Some (isl_multi_pw_aff_from_pw_aff
             (indicator_function
                (isl_set_union (isl_pw_aff_non_zero_set pa1) (isl_pw_aff_non_zero_set pa2))
                (isl_set_intersect (isl_pw_aff_domain pa1) (isl_pw_aff_domain pa2)))) \<and>
          isl_set_points (isl_pw_aff_non_zero_set (pw_aff_or pa1 pa2)) =
            {((n, u), x). x = [] \<and> (n = 1 \<or> n = 2)})"
proof -
  let ?A = "pet_scop_set_skip (ex_scop ex_id_S) pet_skip_now (ex_affine_skip 1)"
  let ?B = "pet_scop_set_skip (ex_scop ex_id_T) pet_skip_now (ex_affine_skip 2)"
  have "\<exists>R. pet_scop_add ?A ?B = Inr R"
    by (simp add: ex_scop_def ex_affine_skip_def pet_scop_set_skip_def add_defs Let_def)
  then obtain R where r: "pet_scop_add ?A ?B = Inr R" ..
  have sk: "scop_skip ?A pet_skip_now = Some (ex_affine_skip 1)"
    "scop_skip ?B pet_skip_now = Some (ex_affine_skip 2)"
    "scop_skip ?A pet_skip_later = None" "scop_skip ?B pet_skip_later = None"
    "multi_pw_aff_is_affine (ex_affine_skip 1)" "multi_pw_aff_is_affine (ex_affine_skip 2)"
    by (simp_all add: pet_scop_set_skip_def ex_scop_def scop_alloc_def ex_affine_skip_def
          multi_pw_aff_is_affine_def)
  from combine_skips_cases[OF r, of pet_skip_later] sk
  have l: "scop_skip R pet_skip_later = None" by simp
  from combine_skips_cases[OF r, of pet_skip_now] sk
  obtain pa1 pa2 where p: "isl_multi_pw_aff_get_pw_aff (ex_affine_skip 1) 0 = Inr pa1"
      "isl_multi_pw_aff_get_pw_aff (ex_affine_skip 2) 0 = Inr pa2"
      "scop_skip R pet_skip_now = Some (isl_multi_pw_aff_from_pw_aff
             (indicator_function
                (isl_set_union (isl_pw_aff_non_zero_set pa1) (isl_pw_aff_non_zero_set pa2))
                (isl_set_intersect (isl_pw_aff_domain pa1) (isl_pw_aff_domain pa2))))"
      "isl_set_points (isl_pw_aff_non_zero_set (pw_aff_or pa1 pa2)) =
                  {(v, x). length x = pa_n_in pa1 \<and>
                     (v, x) \<in> (isl_set_points (isl_pw_aff_non_zero_set pa1) \<union>
                               isl_set_points (isl_pw_aff_non_zero_set pa2)) \<inter>
                              (isl_set_points (isl_pw_aff_domain pa1) \<inter>
                               isl_set_points (isl_pw_aff_domain pa2))}"
    by blast
  from p(1,2) have "{(v, x). length x = pa_n_in pa1 \<and>
                     (v, x) \<in> (isl_set_points (isl_pw_aff_non_zero_set pa1) \<union>
                               isl_set_points (isl_pw_aff_non_zero_set pa2)) \<inter>
                              (isl_set_points (isl_pw_aff_domain pa1) \<inter>
                               isl_set_points (isl_pw_aff_domain pa2))}
        = {((n, u), x). x = [] \<and> (n = 1 \<or> n = 2)}"
    by (auto simp: isl_multi_pw_aff_get_pw_aff_def ex_affine_skip_def isl_pw_aff_non_zero_set_def
          isl_pw_aff_domain_def split: if_splits)
  with p r l show ?thesis by auto
qed

text \<open>
  Claim C4.  For scops \<open>A\<close> and \<open>B\<close> that both hold at least one statement, the scop
  returned by \<open>pet_scop_add\<close> holds the statements of \<open>A\<close> followed by those of \<open>B\<close> and
  the arrays of \<open>A\<close> followed by those of \<open>B\<close>; the counts add up.  A scop is returned
  whenever every skip type that both sides carry is affine on both sides, with its
  boolean expression present.
\<close>

theorem pet_scop_add_concat:
  assumes "length (scop_stmts A) \<noteq> 0" "length (scop_stmts B) \<noteq> 0"
  shows "(\<forall>R. pet_scop_add A B = Inr R \<longrightarrow>
            scop_stmts R = scop_stmts A @ scop_stmts B \<and>
            scop_arrays R = scop_arrays A @ scop_arrays B \<and>
            length (scop_stmts R) = length (scop_stmts A) + length (scop_stmts B) \<and>
            length (scop_arrays R) = length (scop_arrays A) + length (scop_arrays B)) \<and>
         ((\<forall>t s1 s2. scop_skip A t = Some s1 \<and> scop_skip B t = Some s2 \<longrightarrow>
             multi_pw_aff_is_affine s1 \<and> multi_pw_aff_is_affine s2 \<and>
             mpa_affs s1 \<noteq> [] \<and> mpa_affs s2 \<noteq> []) \<longrightarrow>
            (\<exists>R. pet_scop_add A B = Inr R))"
  using pet_scop_add_general[OF assms] pet_scop_add_succeeds[of A B] by simp

theorem pet_scop_add_concat_witness:
  "length (scop_stmts (ex_scop ex_id_S\<lparr>scop_arrays := [ex_array ex_named_extent]\<rparr>)) \<noteq> 0 \<and>
   length (scop_stmts (ex_scop ex_id_T)) \<noteq> 0 \<and>
   (\<exists>R. pet_scop_add (ex_scop ex_id_S\<lparr>scop_arrays := [ex_array ex_named_extent]\<rparr>) (ex_scop ex_id_T) = Inr R \<and>
        scop_stmts R = [ex_stmt ex_id_S, ex_stmt ex_id_T] \<and>
        scop_arrays R = [ex_array ex_named_extent] \<and>
        length (scop_stmts R) = 2 \<and> length (scop_arrays R) = 1)"
proof -
  let ?A = "ex_scop ex_id_S\<lparr>scop_arrays := [ex_array ex_named_extent]\<rparr>"
  let ?B = "ex_scop ex_id_T"
  have a: "length (scop_stmts ?A) \<noteq> 0" and b: "length (scop_stmts ?B) \<noteq> 0"
    by (simp_all add: ex_scop_def)
  have k: "\<forall>t s1 s2. scop_skip ?A t = Some s1 \<and> scop_skip ?B t = Some s2 \<longrightarrow>
             multi_pw_aff_is_affine s1 \<and> multi_pw_aff_is_affine s2 \<and>
             mpa_affs s1 \<noteq> [] \<and> mpa_affs s2 \<noteq> []"
    by (simp add: ex_scop_def scop_alloc_def)
  note t = pet_scop_add_concat[OF a b]
  from t k obtain R where r: "pet_scop_add ?A ?B = Inr R" by blast
  with t have
    "scop_stmts R = scop_stmts ?A @ scop_stmts ?B \<and>
     scop_arrays R = scop_arrays ?A @ scop_arrays ?B \<and>
     length (scop_stmts R) = length (scop_stmts ?A) + length (scop_stmts ?B) \<and>
     length (scop_arrays R) = length (scop_arrays ?A) + length (scop_arrays ?B)"
    by blast
  then have
    "scop_stmts R = [ex_stmt ex_id_S, ex_stmt ex_id_T] \<and>
        scop_arrays R = [ex_array ex_named_extent] \<and>
        length (scop_stmts R) = 2 \<and> length (scop_arrays R) = 1"
    by (simp add: ex_scop_def scop_alloc_def)
  with a b r show ?thesis by blast
qed

text \<open>
  Claim C5, amended.  If the first scop \<open>E\<close> has no statement, a successful
  \<open>pet_scop_add E B\<close> is \<open>B\<close> with the skip conditions of both sides combined: statements,
  arrays, implications, context and location are those of \<open>B\<close>.  If the second scop \<open>E\<close>
  has no statement and the first scop \<open>A\<close> has at least one, a successful
  \<open>pet_scop_add A E\<close> is \<open>A\<close> with the skip conditions combined.  (When neither has a
  statement the first case applies: the result is the second scop.)
\<close>

theorem pet_scop_add_identity:
  "(length (scop_stmts E) = 0 \<and> pet_scop_add E B = Inr R \<longrightarrow>
      scop_combine_skips B E B = Inr R \<and>
      scop_stmts R = scop_stmts B \<and> scop_arrays R = scop_arrays B \<and>
      scop_implications R = scop_implications B \<and> scop_context R = scop_context B \<and>
      scop_loc R = scop_loc B) \<and>
   (length (scop_stmts A) \<noteq> 0 \<and> length (scop_stmts E) = 0 \<and> pet_scop_add A E = Inr R' \<longrightarrow>
      scop_combine_skips A A E = Inr R' \<and>
      scop_stmts R' = scop_stmts A \<and> scop_arrays R' = scop_arrays A \<and>
      scop_implications R' = scop_implications A \<and> scop_context R' = scop_context A \<and>
      scop_loc R' = scop_loc A)"
proof (intro conjI impI)
  assume h: "length (scop_stmts E) = 0 \<and> pet_scop_add E B = Inr R"
  then show c: "scop_combine_skips B E B = Inr R" by (auto simp: pet_scop_add_def)
  from scop_combine_skips_frame[OF c]
  show "scop_stmts R = scop_stmts B" "scop_arrays R = scop_arrays B"
    "scop_implications R = scop_implications B" "scop_context R = scop_context B"
    "scop_loc R = scop_loc B" by simp_all
next
  assume h: "length (scop_stmts A) \<noteq> 0 \<and> length (scop_stmts E) = 0 \<and> pet_scop_add A E = Inr R'"
  then show c: "scop_combine_skips A A E = Inr R'" by (auto simp: pet_scop_add_def)
  from scop_combine_skips_frame[OF c]
  show "scop_stmts R' = scop_stmts A" "scop_arrays R' = scop_arrays A"
    "scop_implications R' = scop_implications A" "scop_context R' = scop_context A"
    "scop_loc R' = scop_loc A" by simp_all
qed

theorem pet_scop_add_identity_witness:
  "length (scop_stmts (pet_scop_set_skip pet_scop_empty pet_skip_now (ex_affine_skip 1))) = 0 \<and>
   length (scop_stmts (ex_scop ex_id_S)) \<noteq> 0 \<and>
   (\<exists>R. pet_scop_add (pet_scop_set_skip pet_scop_empty pet_skip_now (ex_affine_skip 1))
           (ex_scop ex_id_S) = Inr R \<and>
        scop_stmts R = [ex_stmt ex_id_S] \<and> scop_arrays R = [] \<and> scop_loc R = Pet_loc 0 10 1) \<and>
   (\<exists>R. pet_scop_add (ex_scop ex_id_S)
           (pet_scop_set_skip pet_scop_empty pet_skip_now (ex_affine_skip 1)) = Inr R \<and>
        scop_stmts R = [ex_stmt ex_id_S] \<and> scop_arrays R = [] \<and> scop_loc R = Pet_loc 0 10 1)"
proof -
  let ?E = "pet_scop_set_skip pet_scop_empty pet_skip_now (ex_affine_skip 1)"
  let ?B = "ex_scop ex_id_S"
  have e: "length (scop_stmts ?E) = 0" and b: "length (scop_stmts ?B) \<noteq> 0"
    by (simp_all add: pet_scop_set_skip_def pet_scop_empty_def scop_alloc_def ex_scop_def)
  have "\<exists>R. pet_scop_add ?E ?B = Inr R"
    by (simp add: pet_scop_set_skip_def pet_scop_empty_def ex_scop_def add_defs)
  then obtain R where 1: "pet_scop_add ?E ?B = Inr R" ..
  have "\<exists>R. pet_scop_add ?B ?E = Inr R"
    by (simp add: pet_scop_set_skip_def pet_scop_empty_def ex_scop_def add_defs)
  then obtain R' where 2: "pet_scop_add ?B ?E = Inr R'" ..
  from pet_scop_add_identity[of ?E ?B R ?B R'] e b 1 2
  have "scop_stmts R = scop_stmts ?B \<and> scop_arrays R = scop_arrays ?B \<and> scop_loc R = scop_loc ?B \<and>
        scop_stmts R' = scop_stmts ?B \<and> scop_arrays R' = scop_arrays ?B \<and> scop_loc R' = scop_loc ?B"
    by blast
  then have "scop_stmts R = [ex_stmt ex_id_S] \<and> scop_arrays R = [] \<and> scop_loc R = Pet_loc 0 10 1 \<and>
        scop_stmts R' = [ex_stmt ex_id_S] \<and> scop_arrays R' = [] \<and> scop_loc R' = Pet_loc 0 10 1"
    by (simp add: ex_scop_def scop_alloc_def)
  with e b 1 2 show ?thesis by blast
qed

text \<open>
  The claim as stated fails when \<open>A\<close> has no statement either: the scop \<open>A\<close> below has
  one array and no statement, and adding the empty scop to it returns the empty scop,
  without the array of \<open>A\<close>.
\<close>

theorem pet_scop_add_identity_counterexample:
  "length (scop_stmts (pet_scop_empty :: (int, unit) pet_scop)) = 0 \<and>
   pet_scop_add (pet_scop_empty\<lparr>scop_arrays := [ex_array ex_named_extent]\<rparr>) pet_scop_empty =
     Inr pet_scop_empty \<and>
   scop_arrays (pet_scop_empty :: (int, unit) pet_scop) \<noteq>
     scop_arrays (pet_scop_empty\<lparr>scop_arrays := [ex_array ex_named_extent]\<rparr>)"
  by (simp add: pet_scop_empty_def add_defs)

text \<open>
  Claim C6.  If both sides carry a skip condition of one type and neither is affine,
  \<open>combine_skips\<close> reports the internal error "can only combine affine skips" whatever
  scop it writes to, and \<open>pet_scop_add\<close> returns no scop.
\<close>

theorem combine_nonaffine_skips_fails:
  assumes "scop_skip A t = Some s1" "scop_skip B t = Some s2"
    and "\<not> multi_pw_aff_is_affine s1" "\<not> multi_pw_aff_is_affine s2"
  shows "combine_skips ext A B t = Inl (isl_error_internal ''can only combine affine skips'') \<and>
         (\<exists>e. pet_scop_add A B = Inl e)"
proof
  show "combine_skips ext A B t = Inl (isl_error_internal ''can only combine affine skips'')"
    using assms by (simp add: combine_skips_def)
  have f: "\<And>ext. \<exists>e. scop_combine_skips ext A B = Inl e"
    using scop_combine_skips_fails[of A t s1 B s2] assms by blast
  show "\<exists>e. pet_scop_add A B = Inl e"
  proof (cases "length (scop_stmts A) = 0")
    case True
    with f[of B] show ?thesis by (simp add: pet_scop_add_def)
  next
    case False
    note a = this
    show ?thesis
    proof (cases "length (scop_stmts B) = 0")
      case True
      with a f[of A] show ?thesis by (simp add: pet_scop_add_def)
    next
      case False
      with a have "\<exists>ext. pet_scop_add A B =
          ebind (scop_combine_skips ext A B) (\<lambda>scop. Inr (scop_combine_start_end scop A B))"
        by (auto simp: pet_scop_add_def Let_def)
      then obtain ext where "pet_scop_add A B =
          ebind (scop_combine_skips ext A B) (\<lambda>scop. Inr (scop_combine_start_end scop A B))" ..
      with f[of ext] show ?thesis by (auto simp: ebind_def)
    qed
  qed
qed

theorem combine_nonaffine_skips_fails_witness:
  "scop_skip (pet_scop_set_skip (ex_scop ex_id_S) pet_skip_now ex_var_skip) pet_skip_now = Some ex_var_skip \<and>
   scop_skip (pet_scop_set_skip (ex_scop ex_id_T) pet_skip_now ex_var_skip) pet_skip_now = Some ex_var_skip \<and>
   \<not> multi_pw_aff_is_affine ex_var_skip \<and>
   combine_skips scop_alloc (pet_scop_set_skip (ex_scop ex_id_S) pet_skip_now ex_var_skip)
      (pet_scop_set_skip (ex_scop ex_id_T) pet_skip_now ex_var_skip) pet_skip_now =
     Inl (isl_error_internal ''can only combine affine skips'') \<and>
   (\<exists>e. pet_scop_add (pet_scop_set_skip (ex_scop ex_id_S) pet_skip_now ex_var_skip)
           (pet_scop_set_skip (ex_scop ex_id_T) pet_skip_now ex_var_skip) = Inl e)"
proof -
  let ?A = "pet_scop_set_skip (ex_scop ex_id_S) pet_skip_now ex_var_skip"
  let ?B = "pet_scop_set_skip (ex_scop ex_id_T) pet_skip_now ex_var_skip"
  have a: "scop_skip ?A pet_skip_now = Some ex_var_skip" and b: "scop_skip ?B pet_skip_now = Some ex_var_skip"
    by (simp_all add: pet_scop_set_skip_def)
  have n: "\<not> multi_pw_aff_is_affine ex_var_skip"
    by (simp add: multi_pw_aff_is_affine_def ex_var_skip_def)
  from combine_nonaffine_skips_fails[OF a b n n, of scop_alloc] a b n show ?thesis by blast
qed



section \<open>Properties of the restriction\<close>

lemmas restrict_defs = pet_scop_restrict_def pet_scop_restrict_skip_def ebind_def
  multi_pw_aff_is_affine_def isl_multi_pw_aff_get_pw_aff_def Let_def

lemma isl_set_keep_idem: "isl_set_keep f (isl_set_keep f s) = isl_set_keep f s"
  by (cases s) auto

lemma stmt_restrict_idem: "stmt_restrict (stmt_restrict st c) c = stmt_restrict st c"
  by (cases "stmt_domain st")
     (simp_all add: stmt_restrict_def isl_set_intersect_params_def isl_set_keep_idem)

lemma restrict_context_idem:
  "pet_nested_remove_from_set ((pet_nested_remove_from_set ((X \<inter> c) \<union> - c) \<inter> c) \<union> - c) =
   pet_nested_remove_from_set ((X \<inter> c) \<union> - c)"
  unfolding pet_nested_remove_from_set_def
  by (auto simp: image_iff) force+

lemma restrict_context_cylinder:
  assumes "pet_nested_remove_from_set X = X" "pet_nested_remove_from_set c = c"
  shows "pet_nested_remove_from_set ((X \<inter> c) \<union> - c) = (X \<inter> c) \<union> - c"
proof -
  have x: "\<And>p q q'. (p, q) \<in> X \<Longrightarrow> (p, q') \<in> X"
    using assms(1) unfolding pet_nested_remove_from_set_def by (metis SigmaI UNIV_I fst_conv image_eqI)
  have c: "\<And>p q q'. (p, q) \<in> c \<Longrightarrow> (p, q') \<in> c"
    using assms(2) unfolding pet_nested_remove_from_set_def by (metis SigmaI UNIV_I fst_conv image_eqI)
  show ?thesis
    unfolding pet_nested_remove_from_set_def
    using x c by (auto simp: image_iff) force+
qed

lemma pet_scop_restrict_skip_frame:
  assumes "pet_scop_restrict_skip S t c = Inr S'"
  shows "scop_loc S' = scop_loc S \<and> scop_context S' = scop_context S \<and>
         scop_context_value S' = scop_context_value S \<and> scop_types S' = scop_types S \<and>
         scop_arrays S' = scop_arrays S \<and> scop_stmts S' = scop_stmts S \<and>
         scop_implications S' = scop_implications S \<and> scop_input S' = scop_input S \<and>
         (\<forall>t'. t' \<noteq> t \<longrightarrow> scop_skip S' t' = scop_skip S t')"
  using assms
  by (auto simp: pet_scop_restrict_skip_def ebind_def Let_def split: option.splits if_splits sum.splits)

lemma restricted_skip_fixed:
  fixes sk :: "('p, 'q) isl_pw_aff" and c :: "('p \<times> 'q) set"
  defines "k \<equiv> indicator_function
      (isl_set_intersect (isl_set_from_params c) (isl_pw_aff_non_zero_set sk)) (isl_pw_aff_domain sk)"
  shows "indicator_function
      (isl_set_intersect (isl_set_from_params c) (isl_pw_aff_non_zero_set k)) (isl_pw_aff_domain k) = k"
  unfolding k_def
  by (auto simp: indicator_function_def isl_pw_aff_intersect_domain_def
        isl_set_indicator_function_def isl_pw_aff_domain_def isl_pw_aff_non_zero_set_def
        isl_set_intersect_def isl_set_from_params_def fun_eq_iff)

lemma pet_scop_restrict_skip_again:
  assumes "pet_scop_restrict_skip S t c = Inr S'" "scop_skip X t = scop_skip S' t"
  shows "pet_scop_restrict_skip X t c = Inr X"
proof (cases "scop_skip S t")
  case None
  with assms show ?thesis by (auto simp: pet_scop_restrict_skip_def)
next
  case (Some sk)
  with assms(1) obtain pa where aff: "multi_pw_aff_is_affine sk"
    and pa: "isl_multi_pw_aff_get_pw_aff sk 0 = Inr pa"
    and s': "scop_skip S' t = Some (isl_multi_pw_aff_from_pw_aff (indicator_function
      (isl_set_intersect (isl_set_from_params c) (isl_pw_aff_non_zero_set pa)) (isl_pw_aff_domain pa)))"
    by (auto simp: pet_scop_restrict_skip_def ebind_def Let_def split: if_splits sum.splits)
  define k where "k = indicator_function
      (isl_set_intersect (isl_set_from_params c) (isl_pw_aff_non_zero_set pa)) (isl_pw_aff_domain pa)"
  have x: "scop_skip X t = Some (isl_multi_pw_aff_from_pw_aff k)"
    using assms(2) s' by (simp add: k_def)
  have g: "isl_multi_pw_aff_get_pw_aff (isl_multi_pw_aff_from_pw_aff k) 0 = Inr k"
    by (simp add: isl_multi_pw_aff_get_pw_aff_def isl_multi_pw_aff_from_pw_aff_def)
  have a: "multi_pw_aff_is_affine (isl_multi_pw_aff_from_pw_aff k)"
    by (simp add: multi_pw_aff_is_affine_def isl_multi_pw_aff_from_pw_aff_def)
  have f: "indicator_function
      (isl_set_intersect (isl_set_from_params c) (isl_pw_aff_non_zero_set k)) (isl_pw_aff_domain k) = k"
    unfolding k_def by (rule restricted_skip_fixed)
  have "(scop_skip X)(t := Some (isl_multi_pw_aff_from_pw_aff k)) = scop_skip X"
    using x by auto
  then show ?thesis
    using x g a f by (simp add: pet_scop_restrict_skip_def ebind_def Let_def)
qed


text \<open>
  Claim C8.  If \<open>pet_scop_restrict\<close> succeeds on a scop \<open>S\<close> and a condition \<open>c\<close>,
  restricting the result by \<open>c\<close> again succeeds and returns the same scop: the same
  context, the same statements and the same skip conditions.  The context after one
  restriction is the union of the original context intersected with \<open>c\<close> and the
  complement of \<open>c\<close>, with the unnamed parameters projected out; it is that union itself
  when context and condition do not depend on unnamed parameters.  Each iteration domain
  is intersected with \<open>c\<close>.
\<close>

theorem pet_scop_restrict_idem:
  assumes "pet_scop_restrict S c = Inr S1"
  shows "pet_scop_restrict S1 c = Inr S1 \<and>
         scop_context S1 = pet_nested_remove_from_set ((scop_context S \<inter> c) \<union> - c) \<and>
         (pet_nested_remove_from_set (scop_context S) = scop_context S \<and>
          pet_nested_remove_from_set c = c \<longrightarrow>
            scop_context S1 = (scop_context S \<inter> c) \<union> - c) \<and>
         scop_stmts S1 = map (\<lambda>stmt. stmt_restrict stmt c) (scop_stmts S)"
proof -
  from assms obtain Sa Sb where a: "pet_scop_restrict_skip S pet_skip_now c = Inr Sa"
    and b: "pet_scop_restrict_skip Sa pet_skip_later c = Inr Sb"
    and s1: "S1 = Sb\<lparr>scop_context := pet_nested_remove_from_set ((scop_context Sb \<inter> c) \<union> - c),
                    scop_stmts := map (\<lambda>stmt. stmt_restrict stmt c) (scop_stmts Sb)\<rparr>"
    by (auto simp: pet_scop_restrict_def ebind_def Let_def isl_set_coalesce_def split: sum.splits)
  note fa = pet_scop_restrict_skip_frame[OF a] and fb = pet_scop_restrict_skip_frame[OF b]
  have ctx: "scop_context S1 = pet_nested_remove_from_set ((scop_context S \<inter> c) \<union> - c)"
    using fa fb by (simp add: s1)
  have st: "scop_stmts S1 = map (\<lambda>stmt. stmt_restrict stmt c) (scop_stmts S)"
    using fa fb by (simp add: s1)
  have "scop_skip S1 pet_skip_now = scop_skip Sa pet_skip_now" using fb by (simp add: s1)
  from pet_scop_restrict_skip_again[OF a this]
  have n: "pet_scop_restrict_skip S1 pet_skip_now c = Inr S1" .
  have "scop_skip S1 pet_skip_later = scop_skip Sb pet_skip_later" by (simp add: s1)
  from pet_scop_restrict_skip_again[OF b this]
  have l: "pet_scop_restrict_skip S1 pet_skip_later c = Inr S1" .
  have c2: "pet_nested_remove_from_set ((scop_context S1 \<inter> c) \<union> - c) = scop_context S1"
    unfolding ctx by (rule restrict_context_idem)
  have m2: "map (\<lambda>stmt. stmt_restrict stmt c) (scop_stmts S1) = scop_stmts S1"
    unfolding st by (simp add: stmt_restrict_idem)
  have "pet_scop_restrict S1 c = Inr S1"
    using n l c2 m2 by (simp add: pet_scop_restrict_def ebind_def Let_def isl_set_coalesce_def)
  with ctx st restrict_context_cylinder[of "scop_context S" c] show ?thesis by simp
qed

theorem pet_scop_restrict_idem_witness:
  "\<exists>S1. pet_scop_restrict (pet_scop_set_skip (ex_scop ex_id_S) pet_skip_now (ex_affine_skip 1))
           {(n, u). 0 \<le> n} = Inr S1 \<and>
        pet_scop_restrict S1 {(n, u). 0 \<le> n} = Inr S1 \<and>
        scop_context S1 = UNIV \<and>
        map stmt_domain (scop_stmts S1) =
          [Some (Isl_set (Some ex_id_S) 0 {((n, u), x). x = [] \<and> 0 \<le> n})]"
proof -
  let ?S = "pet_scop_set_skip (ex_scop ex_id_S) pet_skip_now (ex_affine_skip 1)"
  let ?c = "{(n :: int, u :: unit). 0 \<le> n}"
  have "\<exists>S1. pet_scop_restrict ?S ?c = Inr S1"
    by (simp add: pet_scop_set_skip_def ex_scop_def ex_affine_skip_def scop_alloc_def restrict_defs)
  then obtain S1 where r: "pet_scop_restrict ?S ?c = Inr S1" ..
  note t = pet_scop_restrict_idem[OF r]
  have "pet_nested_remove_from_set ((scop_context ?S \<inter> ?c) \<union> - ?c) = UNIV"
    by (auto simp: pet_nested_remove_from_set_def pet_scop_set_skip_def ex_scop_def scop_alloc_def)
  moreover have "map stmt_domain (map (\<lambda>stmt. stmt_restrict stmt ?c) (scop_stmts ?S)) =
      [Some (Isl_set (Some ex_id_S) 0 {((n, u), x). x = [] \<and> 0 \<le> n})]"
    by (auto simp: pet_scop_set_skip_def ex_scop_def scop_alloc_def ex_stmt_def stmt_restrict_def
          isl_set_intersect_params_def)
  ultimately show ?thesis using t r by auto
qed

section \<open>Properties of the filter\<close>

lemmas filter_defs = pet_scop_filter_def pet_scop_filter_skip_def pet_scop_has_skip_def
  stmt_filter_def filter_implied_def extend_test_def pet_stmt_get_space_def ebind_def Let_def

lemma mapM_err_all2:
  assumes "mapM_err f xs = Inr ys"
  shows "list_all2 (\<lambda>x y. f x = Inr y) xs ys"
  using assms
  by (induction xs arbitrary: ys) (auto split: sum.splits)

lemma ucast_word_of_int_64_32: "(ucast (word_of_int n :: 64 word) :: 32 word) = word_of_int n"
  by transfer (simp add: take_bit_take_bit min_def)

lemma ucast_num_si:
  "(ucast (isl_val_get_num_si (Isl_val_int n)) :: 32 word) =
   (if - (2 ^ 63) \<le> n \<and> n < 2 ^ 63 then word_of_int n else 0)"
  by (simp add: isl_val_get_num_si_def ucast_word_of_int_64_32)









lemma filter_redundant_fixed:
  assumes "isl_plain_contract lib" "filter_redundant lib S st i T v"
  shows "\<exists>a m n. stmt_domain st = Some (Isl_wrap a m) \<and> (\<forall>(w, x, y) \<in> map_pts m. y ! i = n) \<and>
                 (if - (2 ^ 63) \<le> n \<and> n < 2 ^ 63 then word_of_int n else 0) = v"
  using assms unfolding isl_plain_contract_def filter_redundant_def by blast

lemma filter_insert_pinned:
  "\<exists>m. isl_set_unwrap (filter_insert d v) = Inr m \<and> (\<forall>(w, x, y) \<in> map_pts m. y ! 0 = sint v)"
  by (cases d) auto


text \<open>
  Claim C3.  The claim says that filtering a scop twice by the same test and value is
  filtering it once: the second application adds no argument and changes no domain.  On
  the scop with the single statement \<open>S_0\<close>, no implication and no skip condition,
  filtered by the test variable \<open>__pet_test_0\<close> and the value 1, the first application
  gives the statement one argument and the second application gives it a second one:
  \<open>filter_implied\<close> answers no as soon as the scop has no implication, before it looks at
  the arguments.  On the same scop with one implication registered for another variable,
  the second application returns the scop of the first unchanged.
\<close>

theorem pet_scop_filter_twice:
  "(\<exists>S1 S2. pet_scop_filter ex_lib (ex_scop ex_id_S) ex_var_skip 1 = Inr S1 \<and>
            pet_scop_filter ex_lib S1 ex_var_skip 1 = Inr S2 \<and>
            map (\<lambda>stmt. length (stmt_args stmt)) (scop_stmts S1) = [1] \<and>
            map (\<lambda>stmt. length (stmt_args stmt)) (scop_stmts S2) = [2]) \<and>
   (\<exists>S1. pet_scop_filter ex_lib ((ex_scop ex_id_S)\<lparr>scop_implications := [ex_implication ex_id_other 1]\<rparr>)
              ex_var_skip 1 = Inr S1 \<and>
         pet_scop_filter ex_lib S1 ex_var_skip 1 = Inr S1 \<and>
         map (\<lambda>stmt. length (stmt_args stmt)) (scop_stmts S1) = [1])"
proof
  show "\<exists>S1 S2. pet_scop_filter ex_lib (ex_scop ex_id_S) ex_var_skip 1 = Inr S1 \<and>
            pet_scop_filter ex_lib S1 ex_var_skip 1 = Inr S2 \<and>
            map (\<lambda>stmt. length (stmt_args stmt)) (scop_stmts S1) = [1] \<and>
            map (\<lambda>stmt. length (stmt_args stmt)) (scop_stmts S2) = [2]"
    by (simp add: ex_scop_def scop_alloc_def ex_var_skip_def ex_stmt_def ex_id_test_def filter_defs)
  have fx: "\<And>m. map_pts m = (\<lambda>(v, x). (v, x, [1])) ` {(v, x). x = []} \<Longrightarrow>
                plain_fixed ex_lib m 0 = Isl_val_int 1"
    by (auto simp: ex_lib_def)
  show "\<exists>S1. pet_scop_filter ex_lib ((ex_scop ex_id_S)\<lparr>scop_implications := [ex_implication ex_id_other 1]\<rparr>)
              ex_var_skip 1 = Inr S1 \<and>
         pet_scop_filter ex_lib S1 ex_var_skip 1 = Inr S1 \<and>
         map (\<lambda>stmt. length (stmt_args stmt)) (scop_stmts S1) = [1]"
    by (simp add: ex_scop_def scop_alloc_def ex_var_skip_def ex_stmt_def ex_id_test_def ex_id_other_def
          ex_implication_def filter_defs implies_filter_def pet_expr_from_index_def
          pet_expr_access_get_id_def isl_map_from_multi_pw_aff_def isl_map_plain_get_val_if_fixed_def
          fx isl_val_is_int_def ucast_num_si isl_map_is_subset_def apply_implications_def)
qed


section \<open>Properties of the sequential composition\<close>




section \<open>Properties of the embedding\<close>

text \<open>
  Claim C7, amended.  Call an array virtual when its extent has a tuple identifier
  without user pointer and is not a wrapped relation.  If \<open>pet_scop_embed\<close> returns a
  scop, its arrays are the embedded arrays of the input in the same order; a virtual
  array gets as extent the flat product of the loop domain with its old extent under the
  old tuple identifier and is otherwise unchanged, and every other array is returned
  unchanged.
\<close>

theorem pet_scop_embed_arrays:
  assumes "pet_scop_embed cembed sembed S d = Inr R"
  shows "scop_arrays R = map (\<lambda>array. pet_array_embed array d) (scop_arrays S) \<and>
         (\<forall>a \<in> set (scop_arrays S).
            (isl_set_has_tuple_id (array_extent a) \<and> \<not> isl_set_is_wrapping (array_extent a) \<and>
             id_user (the (set_tuple_id (array_extent a))) = None \<longrightarrow>
               array_extent (pet_array_embed a d) =
                 isl_set_set_tuple_id (isl_set_flat_product d (array_extent a))
                   (the (set_tuple_id (array_extent a))) \<and>
               set_tuple_id (array_extent (pet_array_embed a d)) = set_tuple_id (array_extent a) \<and>
               pet_array_embed a d = a\<lparr>array_extent := array_extent (pet_array_embed a d)\<rparr>) \<and>
            (\<not> (isl_set_has_tuple_id (array_extent a) \<and> \<not> isl_set_is_wrapping (array_extent a) \<and>
                id_user (the (set_tuple_id (array_extent a))) = None) \<longrightarrow>
               pet_array_embed a d = a))"
proof
  from assms show "scop_arrays R = map (\<lambda>array. pet_array_embed array d) (scop_arrays S)"
    by (auto simp: pet_scop_embed_def Let_def ebind_def pet_scop_reset_skip_def split: sum.splits)
  show "\<forall>a \<in> set (scop_arrays S).
            (isl_set_has_tuple_id (array_extent a) \<and> \<not> isl_set_is_wrapping (array_extent a) \<and>
             id_user (the (set_tuple_id (array_extent a))) = None \<longrightarrow>
               array_extent (pet_array_embed a d) =
                 isl_set_set_tuple_id (isl_set_flat_product d (array_extent a))
                   (the (set_tuple_id (array_extent a))) \<and>
               set_tuple_id (array_extent (pet_array_embed a d)) = set_tuple_id (array_extent a) \<and>
               pet_array_embed a d = a\<lparr>array_extent := array_extent (pet_array_embed a d)\<rparr>) \<and>
            (\<not> (isl_set_has_tuple_id (array_extent a) \<and> \<not> isl_set_is_wrapping (array_extent a) \<and>
                id_user (the (set_tuple_id (array_extent a))) = None) \<longrightarrow>
               pet_array_embed a d = a)"
  proof
    fix a assume "a \<in> set (scop_arrays S)"
    show "(isl_set_has_tuple_id (array_extent a) \<and> \<not> isl_set_is_wrapping (array_extent a) \<and>
             id_user (the (set_tuple_id (array_extent a))) = None \<longrightarrow>
               array_extent (pet_array_embed a d) =
                 isl_set_set_tuple_id (isl_set_flat_product d (array_extent a))
                   (the (set_tuple_id (array_extent a))) \<and>
               set_tuple_id (array_extent (pet_array_embed a d)) = set_tuple_id (array_extent a) \<and>
               pet_array_embed a d = a\<lparr>array_extent := array_extent (pet_array_embed a d)\<rparr>) \<and>
            (\<not> (isl_set_has_tuple_id (array_extent a) \<and> \<not> isl_set_is_wrapping (array_extent a) \<and>
                id_user (the (set_tuple_id (array_extent a))) = None) \<longrightarrow>
               pet_array_embed a d = a)"
      by (cases "array_extent a")
         (auto simp: extent_is_virtual_array_def pet_array_embed_def isl_set_has_tuple_id_def
            isl_set_flat_product_def split: option.splits)
  qed
qed

theorem pet_scop_embed_arrays_witness:
  "\<exists>R. pet_scop_embed Inr Inr
          (ex_scop ex_id_S\<lparr>scop_arrays := [ex_array ex_virtual_extent, ex_array ex_named_extent,
                                            ex_array ex_member_extent]\<rparr>)
          (Isl_set None 1 {(v, x). \<exists>j. x = [j] \<and> 0 \<le> j \<and> j < 5}) = Inr R \<and>
       map array_extent (scop_arrays R) =
         [Isl_set (Some ex_id_test) 1 {(v, x). \<exists>j. x = [j] \<and> 0 \<le> j \<and> j < 5},
          ex_named_extent, ex_member_extent]"
proof -
  let ?S = "ex_scop ex_id_S\<lparr>scop_arrays := [ex_array ex_virtual_extent, ex_array ex_named_extent,
                                            ex_array ex_member_extent]\<rparr>"
  let ?d = "Isl_set None 1 {(v :: int \<times> unit, x). \<exists>j. x = [j] \<and> 0 \<le> j \<and> j < 5}"
  have "\<exists>R. pet_scop_embed Inr Inr ?S ?d = Inr R"
    by (simp add: pet_scop_embed_def ebind_def Let_def ex_scop_def scop_alloc_def ex_stmt_def
          pet_scop_reset_skip_def)
  then obtain R where r: "pet_scop_embed Inr Inr ?S ?d = Inr R" ..
  note t = pet_scop_embed_arrays[OF r]
  from t have a: "scop_arrays R = map (\<lambda>array. pet_array_embed array ?d) (scop_arrays ?S)" by blast
  from t have v: "array_extent (pet_array_embed (ex_array ex_virtual_extent) ?d) =
                 isl_set_set_tuple_id (isl_set_flat_product ?d (array_extent (ex_array ex_virtual_extent)))
                   (the (set_tuple_id (array_extent (ex_array ex_virtual_extent))))"
    by (simp add: ex_array_def ex_virtual_extent_def isl_set_has_tuple_id_def ex_id_test_def)
  from t have n: "pet_array_embed (ex_array ex_named_extent) ?d = ex_array ex_named_extent"
    by (simp add: ex_array_def ex_named_extent_def isl_set_has_tuple_id_def ex_id_A_def)
  from t have m: "pet_array_embed (ex_array ex_member_extent) ?d = ex_array ex_member_extent"
    by (simp add: ex_array_def ex_member_extent_def isl_set_has_tuple_id_def)
  have "isl_set_set_tuple_id (isl_set_flat_product ?d (array_extent (ex_array ex_virtual_extent)))
                   (the (set_tuple_id (array_extent (ex_array ex_virtual_extent)))) =
        Isl_set (Some ex_id_test) 1 {(v, x). \<exists>j. x = [j] \<and> 0 \<le> j \<and> j < 5}"
    by (auto simp: ex_array_def ex_virtual_extent_def isl_set_flat_product_def)
  with a v n m have "map array_extent (scop_arrays R) =
         [Isl_set (Some ex_id_test) 1 {(v, x). \<exists>j. x = [j] \<and> 0 \<le> j \<and> j < 5},
          ex_named_extent, ex_member_extent]"
    by (simp add: ex_array_def)
  with r show ?thesis by (intro exI[of _ R] conjI)
qed

text \<open>
  The claim as stated calls virtual every array whose extent identifier has no user
  pointer.  The extent of a member access is such a set, but it is a wrapped relation:
  \<open>extent_is_virtual_array\<close> answers no and the extent is not replaced by the flat
  product.
\<close>

theorem pet_scop_embed_arrays_counterexample:
  "set_tuple_id (array_extent (ex_array ex_member_extent)) = Some (Isl_id ''s_a'' None) \<and>
   id_user (Isl_id ''s_a'' None) = None \<and>
   pet_scop_embed Inr Inr (ex_scop ex_id_S\<lparr>scop_arrays := [ex_array ex_member_extent]\<rparr>)
      (Isl_set None 1 {(v, x). length x = 1}) =
     Inr (ex_scop ex_id_S\<lparr>scop_arrays := [ex_array ex_member_extent]\<rparr>) \<and>
   array_extent (ex_array ex_member_extent) \<noteq>
     isl_set_set_tuple_id (isl_set_flat_product (Isl_set None 1 {(v, x). length x = 1}) (array_extent (ex_array ex_member_extent)))
       (Isl_id ''s_a'' None)"
  by (simp add: ex_array_def ex_member_extent_def ex_scop_def scop_alloc_def pet_scop_embed_def
        pet_scop_reset_skip_def ebind_def Let_def pet_array_embed_def extent_is_virtual_array_def
        isl_set_has_tuple_id_def isl_set_flat_product_def)

section \<open>Properties of the gist\<close>

lemma ex_gist_contract: "gist_contract ex_gist"
  unfolding gist_contract_def
proof (intro allI impI)
  fix s c :: "('a, 'b) isl_set"
  assume "isl_set_same_space s c"
  show "isl_set_same_space (ex_gist s c) s \<and>
        isl_set_intersect (ex_gist s c) c = isl_set_intersect s c"
  proof (cases s)
    case (Isl_set i n P)
    then show ?thesis by (auto simp: isl_set_intersect_def)
  next
    case (Isl_wrap i m)
    have "{(v, x, y). ((v, x, y) \<in> map_pts m \<or> length x = map_n_in m \<and> length y = map_n_out m \<and>
                    (v, x @ y) \<notin> isl_set_points c) \<and> (v, x @ y) \<in> isl_set_points c} =
          {(v, x, y). (v, x, y) \<in> map_pts m \<and> (v, x @ y) \<in> isl_set_points c}" by auto
    then show ?thesis using Isl_wrap by (simp add: isl_set_intersect_def Un_def)
  qed
qed

lemma ex_map_gist_contract: "map_gist_contract ex_map_gist"
proof -
  have "\<And>(m :: ('a, 'b) isl_map) d.
      {(v, x, y). ((v, x, y) \<in> map_pts m \<or> length x = map_n_in m \<and> length y = map_n_out m \<and>
                    (v, x) \<notin> isl_set_points d) \<and> (v, x) \<in> isl_set_points d} =
      {(v, x, y). (v, x, y) \<in> map_pts m \<and> (v, x) \<in> isl_set_points d}" by auto
  then show ?thesis
    by (simp add: map_gist_contract_def ex_map_gist_def isl_map_intersect_domain_def Un_def)
qed

lemma id_index_gist_contract: "index_gist_contract (\<lambda>i d. i)"
  by (simp add: index_gist_contract_def)

lemma same_space_universe: "isl_set_same_space s (isl_set_intersect_params (isl_set_universe_like s) c)"
  by (cases s) (auto simp: isl_set_intersect_params_def)

lemma array_gist_within:
  assumes "gist_contract g"
  shows "isl_set_same_space (array_extent (array_gist g a c)) (array_extent a) \<and>
         isl_set_intersect (array_extent (array_gist g a c))
           (isl_set_intersect_params (isl_set_universe_like (array_extent a)) c) =
         isl_set_intersect (array_extent a)
           (isl_set_intersect_params (isl_set_universe_like (array_extent a)) c)"
  using assms same_space_universe[of "array_extent a" c]
  by (simp add: array_gist_def isl_set_gist_params_def gist_contract_def)

lemma pet_expr_gist_within:
  assumes m: "map_gist_contract mg" and i: "index_gist_contract ig"
  shows "pet_expr_same_within vb vbs d e (pet_expr_gist mg ig vb e d vbs)"
proof (induction e)
  case (Pet_expr_access acc idx r w as)
  have "list_all2 (pet_expr_same_within vb vbs d) as (map (\<lambda>a. pet_expr_gist mg ig vb a d vbs) as)"
    using Pet_expr_access.IH by (simp add: list_all2_map2 list_all2_same)
  then show ?case
    using m i by (simp add: Let_def map_gist_contract_def index_gist_contract_def)
next
  case (Pet_expr_op k as)
  have "list_all2 (pet_expr_same_within vb vbs d) as (map (\<lambda>a. pet_expr_gist mg ig vb a d vbs) as)"
    using Pet_expr_op.IH by (simp add: list_all2_map2 list_all2_same)
  then show ?case by simp
qed

lemma stmt_gist_within:
  assumes g: "gist_contract g" and m: "map_gist_contract mg" and i: "index_gist_contract ig"
    and s: "stmt_gist g mg ig vb st c vbs = Inr st'"
  shows "stmt_schedule st' = stmt_schedule st \<and>
         (\<exists>sd k D. stmt_domain st = Some sd \<and> stmt_gist_domain st c = Inr D \<and>
            stmt_gist_context vb (st'\<lparr>stmt_domain := Some sd\<rparr>) c vbs = Some k \<and>
            pet_expr_same_within vb vbs D (stmt_body st) (stmt_body st') \<and>
            list_all2 (pet_expr_same_within vb vbs D) (stmt_args st) (stmt_args st') \<and>
            isl_set_same_space sd k \<and>
            (\<exists>sd'. stmt_domain st' = Some sd' \<and> isl_set_same_space sd' sd \<and>
                   isl_set_intersect sd' k = isl_set_intersect sd k))"
proof -
  from s obtain D where D: "stmt_gist_domain st c = Inr D"
    by (auto simp: stmt_gist_def ebind_def split: sum.splits)
  then obtain sd where sd: "stmt_domain st = Some sd"
    by (cases "stmt_domain st") (auto simp: stmt_gist_domain_def)
  define st2 where "st2 = st\<lparr>stmt_args := map (\<lambda>a. pet_expr_gist mg ig vb a D vbs) (stmt_args st),
                              stmt_body := pet_expr_gist mg ig vb (stmt_body st) D vbs\<rparr>"
  from s D sd obtain k where k: "stmt_gist_context vb st2 c vbs = Some k"
    and sp: "isl_set_same_space sd k"
    and st': "st' = st2\<lparr>stmt_domain := Some (g sd k)\<rparr>"
    by (auto simp: stmt_gist_def ebind_def Let_def st2_def split: option.splits if_splits)
  have "st'\<lparr>stmt_domain := Some sd\<rparr> = st2"
    using sd by (simp add: st' st2_def)
  with k have k': "stmt_gist_context vb (st'\<lparr>stmt_domain := Some sd\<rparr>) c vbs = Some k"
    by simp
  have b: "pet_expr_same_within vb vbs D (stmt_body st) (stmt_body st')"
    by (simp add: st' st2_def pet_expr_gist_within[OF m i])
  have a: "list_all2 (pet_expr_same_within vb vbs D) (stmt_args st) (stmt_args st')"
    by (simp add: st' st2_def list_all2_map2 list_all2_same pet_expr_gist_within[OF m i])
  from g sp have "isl_set_same_space (g sd k) sd \<and> isl_set_intersect (g sd k) k = isl_set_intersect sd k"
    by (simp add: gist_contract_def)
  then have d: "\<exists>sd'. stmt_domain st' = Some sd' \<and> isl_set_same_space sd' sd \<and>
                      isl_set_intersect sd' k = isl_set_intersect sd k"
    by (simp add: st')
  have sc: "stmt_schedule st' = stmt_schedule st" by (simp add: st' st2_def)
  from sc sd D k' b a sp d show ?thesis by blast
qed

text \<open>
  Claim C9, amended.  Let \<open>gist\<close>, \<open>mgist\<close> and \<open>igist\<close> keep the promise of the library.
  If \<open>pet_scop_gist\<close> returns a scop, the context is unchanged; every array extent keeps
  its space and its points within the context it was simplified in (the universe of its
  space intersected with the context of the scop); every statement keeps its schedule,
  its body and its arguments are the same expressions within the iteration domain of the
  statement at the parameter values of the context (narrowed by the value bounds at an
  access with arguments), and its iteration domain keeps its space and its points within
  the context it is simplified in, which lives in the space of the domain.  Points
  outside the context may be added.
\<close>

theorem pet_scop_gist_within_context:
  assumes g: "gist_contract g" and m: "map_gist_contract mg" and i: "index_gist_contract ig"
    and r: "pet_scop_gist g mg ig vb S vbs = Inr R"
  shows "scop_context R = scop_context S \<and>
         list_all2 (\<lambda>a a'. isl_set_same_space (array_extent a') (array_extent a) \<and>
                      isl_set_intersect (array_extent a')
                        (isl_set_intersect_params (isl_set_universe_like (array_extent a))
                           (scop_context S)) =
                      isl_set_intersect (array_extent a)
                        (isl_set_intersect_params (isl_set_universe_like (array_extent a))
                           (scop_context S)))
           (scop_arrays S) (scop_arrays R) \<and>
         list_all2 (\<lambda>st st'. stmt_schedule st' = stmt_schedule st \<and>
            (\<exists>sd k D. stmt_domain st = Some sd \<and> stmt_gist_domain st (scop_context S) = Inr D \<and>
               stmt_gist_context vb (st'\<lparr>stmt_domain := Some sd\<rparr>) (scop_context S) vbs = Some k \<and>
               pet_expr_same_within vb vbs D (stmt_body st) (stmt_body st') \<and>
               list_all2 (pet_expr_same_within vb vbs D) (stmt_args st) (stmt_args st') \<and>
               isl_set_same_space sd k \<and>
               (\<exists>sd'. stmt_domain st' = Some sd' \<and> isl_set_same_space sd' sd \<and>
                      isl_set_intersect sd' k = isl_set_intersect sd k)))
           (scop_stmts S) (scop_stmts R)"
proof -
  from r obtain stmts where
    ms: "mapM_err (\<lambda>stmt. stmt_gist g mg ig vb stmt (scop_context S) vbs) (scop_stmts S) = Inr stmts"
    and R: "R = S\<lparr>scop_context := scop_context S,
                  scop_arrays := map (\<lambda>array. array_gist g array (scop_context S)) (scop_arrays S),
                  scop_stmts := stmts\<rparr>"
    by (auto simp: pet_scop_gist_def Let_def ebind_def isl_set_coalesce_def split: sum.splits)
  have a: "list_all2 (\<lambda>a a'. isl_set_same_space (array_extent a') (array_extent a) \<and>
                      isl_set_intersect (array_extent a')
                        (isl_set_intersect_params (isl_set_universe_like (array_extent a))
                           (scop_context S)) =
                      isl_set_intersect (array_extent a)
                        (isl_set_intersect_params (isl_set_universe_like (array_extent a))
                           (scop_context S)))
           (scop_arrays S) (scop_arrays R)"
    using array_gist_within[OF g] by (simp add: R list_all2_map2 list_all2_same)
  have s: "list_all2 (\<lambda>st st'. stmt_schedule st' = stmt_schedule st \<and>
            (\<exists>sd k D. stmt_domain st = Some sd \<and> stmt_gist_domain st (scop_context S) = Inr D \<and>
               stmt_gist_context vb (st'\<lparr>stmt_domain := Some sd\<rparr>) (scop_context S) vbs = Some k \<and>
               pet_expr_same_within vb vbs D (stmt_body st) (stmt_body st') \<and>
               list_all2 (pet_expr_same_within vb vbs D) (stmt_args st) (stmt_args st') \<and>
               isl_set_same_space sd k \<and>
               (\<exists>sd'. stmt_domain st' = Some sd' \<and> isl_set_same_space sd' sd \<and>
                      isl_set_intersect sd' k = isl_set_intersect sd k)))
           (scop_stmts S) (scop_stmts R)"
  proof -
    have e: "scop_stmts R = stmts" by (simp add: R)
    show ?thesis unfolding e
      by (rule list_all2_mono[OF mapM_err_all2[OF ms]]) (rule stmt_gist_within[OF g m i])
  qed
  from a s show ?thesis by (simp add: R)
qed

theorem pet_scop_gist_within_context_witness:
  "gist_contract (ex_gist :: (int, unit) isl_set \<Rightarrow> (int, unit) isl_set \<Rightarrow> (int, unit) isl_set) \<and>
   map_gist_contract (ex_map_gist :: (int, unit) isl_map \<Rightarrow> (int, unit) isl_set \<Rightarrow> (int, unit) isl_map) \<and>
   index_gist_contract (\<lambda>(i :: (int, unit) isl_multi_pw_aff) (d :: (int, unit) isl_set). i) \<and>
   (\<exists>R. pet_scop_gist ex_gist ex_map_gist (\<lambda>i d. i) (\<lambda>d as b. d) ex_gist_scop () = Inr R \<and>
        scop_context R = {(n, u). 5 \<le> n} \<and>
        list_all2 (\<lambda>a a'. isl_set_same_space (array_extent a') (array_extent a) \<and>
                      isl_set_intersect (array_extent a')
                        (isl_set_intersect_params (isl_set_universe_like (array_extent a))
                           {(n, u). 5 \<le> n}) =
                      isl_set_intersect (array_extent a)
                        (isl_set_intersect_params (isl_set_universe_like (array_extent a))
                           {(n, u). 5 \<le> n}))
           (scop_arrays ex_gist_scop) (scop_arrays R) \<and>
        list_all2 (\<lambda>st st'. stmt_schedule st' = stmt_schedule st \<and>
            (\<exists>sd k D. stmt_domain st = Some sd \<and> stmt_gist_domain st {(n, u). 5 \<le> n} = Inr D \<and>
               stmt_gist_context (\<lambda>d as b. d) (st'\<lparr>stmt_domain := Some sd\<rparr>) {(n, u). 5 \<le> n} () = Some k \<and>
               pet_expr_same_within (\<lambda>d as b. d) () D (stmt_body st) (stmt_body st') \<and>
               list_all2 (pet_expr_same_within (\<lambda>d as b. d) () D) (stmt_args st) (stmt_args st') \<and>
               isl_set_same_space sd k \<and>
               (\<exists>sd'. stmt_domain st' = Some sd' \<and> isl_set_same_space sd' sd \<and>
                      isl_set_intersect sd' k = isl_set_intersect sd k)))
           (scop_stmts ex_gist_scop) (scop_stmts R))"
proof -
  have g: "gist_contract (ex_gist :: (int, unit) isl_set \<Rightarrow> (int, unit) isl_set \<Rightarrow> (int, unit) isl_set)"
    by (rule ex_gist_contract)
  have m: "map_gist_contract (ex_map_gist :: (int, unit) isl_map \<Rightarrow> (int, unit) isl_set \<Rightarrow> (int, unit) isl_map)"
    by (rule ex_map_gist_contract)
  have i: "index_gist_contract (\<lambda>(i :: (int, unit) isl_multi_pw_aff) (d :: (int, unit) isl_set). i)"
    by (rule id_index_gist_contract)
  have "\<exists>R. pet_scop_gist ex_gist ex_map_gist (\<lambda>i d. i) (\<lambda>d as b. d) ex_gist_scop () = Inr R"
    by (simp add: pet_scop_gist_def ex_gist_scop_def scop_alloc_def
          Let_def ebind_def stmt_gist_def stmt_gist_domain_def stmt_gist_context_def
          pet_stmt_get_space_def ex_stmt_def isl_set_universe_def isl_set_intersect_params_def
          isl_set_coalesce_def)
  then obtain R where r: "pet_scop_gist ex_gist ex_map_gist (\<lambda>i d. i) (\<lambda>d as b. d) ex_gist_scop () = Inr R" ..
  have c: "scop_context ex_gist_scop = {(n, u). 5 \<le> n}" by (simp add: ex_gist_scop_def)
  note t = pet_scop_gist_within_context[OF g m i r, unfolded c]
  with t g m i r show ?thesis by blast
qed

text \<open>
  The claim as stated fails: the extent \<open>{A[i] : n >= 5}\<close> simplified in the context
  \<open>n >= 5\<close> loses its only constraint, and the point \<open>A[0]\<close> at \<open>n = 4\<close> belongs to the
  result but not to the original extent.
\<close>

theorem pet_scop_gist_counterexample:
  "gist_contract (ex_gist :: (int, unit) isl_set \<Rightarrow> (int, unit) isl_set \<Rightarrow> (int, unit) isl_set) \<and>
   (\<exists>R. pet_scop_gist ex_gist ex_map_gist (\<lambda>i d. i) (\<lambda>d as b. d) ex_gist_scop () = Inr R \<and>
        ((4, ()), [0]) \<in> isl_set_points (array_extent (hd (scop_arrays R))) \<and>
        ((4, ()), [0]) \<notin> isl_set_points (array_extent (hd (scop_arrays ex_gist_scop))))"
proof
  show "gist_contract (ex_gist :: (int, unit) isl_set \<Rightarrow> (int, unit) isl_set \<Rightarrow> (int, unit) isl_set)"
    by (rule ex_gist_contract)
  show "\<exists>R. pet_scop_gist ex_gist ex_map_gist (\<lambda>i d. i) (\<lambda>d as b. d) ex_gist_scop () = Inr R \<and>
        ((4, ()), [0]) \<in> isl_set_points (array_extent (hd (scop_arrays R))) \<and>
        ((4, ()), [0]) \<notin> isl_set_points (array_extent (hd (scop_arrays ex_gist_scop)))"
    by (simp add: pet_scop_gist_def ex_gist_scop_def scop_alloc_def ex_array_def
          ex_stmt_def Let_def ebind_def isl_set_coalesce_def array_gist_def isl_set_gist_params_def
          isl_set_intersect_params_def stmt_gist_def stmt_gist_context_def isl_set_universe_def
          pet_stmt_get_space_def stmt_gist_domain_def)
qed

end
